theory Spec2Isabelle
  imports Main "HOL-Library.Word"
begin

section \<open>JavaScript values and the engine's built-ins\<close>

text \<open>
  The page script \<^verbatim>\<open>static/js/main.js\<close> is embedded function by function
  (\<^verbatim>\<open>loadDatasets\<close>, \<^verbatim>\<open>editCode\<close> and \<^verbatim>\<open>saveCode\<close>, of which no property below speaks, are
  left out). A JavaScript string is a sequence of 16-bit code units; the literals of the
  script that are not ASCII are written out as their code units, with an English gloss.
\<close>

type_synonym jsstring = "16 word list"

definition ascii :: "string \<Rightarrow> jsstring" where
  "ascii cs = map (\<lambda>c. of_nat (of_char c)) cs"

text \<open>
  Every value the script handles arrives through \<^verbatim>\<open>response.json()\<close> (or is one of the
  initial globals), so it is a JSON value; \<^verbatim>\<open>undefined\<close> arises only as the result of
  reading a property and is \<open>None\<close> of \<open>'n json option\<close>. Numbers are IEEE doubles and
  stay abstract (the type parameter \<open>'n\<close>). An object is the list of its own properties
  in enumeration order (the order of \<^verbatim>\<open>Object.entries\<close>); an object has no two
  properties of the same name.
\<close>

datatype 'n json =
    JNull
  | JBool bool
  | JNum 'n
  | JStr jsstring
  | JArr "'n json list"
  | JObj "(jsstring \<times> 'n json) list"

datatype js_error =
    TypeError jsstring
  | SyntaxError jsstring
  | NetworkError jsstring

fun message :: "js_error \<Rightarrow> jsstring" where
  "message (TypeError m) = m"
| "message (SyntaxError m) = m"
| "message (NetworkError m) = m"

text \<open>
  What the script uses of the engine and is not written in the repository: the JSON
  codec, the conversion of numbers to text, double arithmetic, and the wording of the
  engine's own errors. They are parameters of the model.
\<close>

record 'n platform =
  JSON_parse :: "jsstring \<Rightarrow> js_error + 'n json"
  JSON_stringify :: "'n json \<Rightarrow> jsstring"
  Number_toString :: "'n \<Rightarrow> jsstring"
  Number_isFalsy :: "'n \<Rightarrow> bool"
  Number_multiply :: "'n \<Rightarrow> 'n \<Rightarrow> 'n"
  Number_literal :: "nat \<Rightarrow> 'n"
  Number_toFixed :: "'n \<Rightarrow> nat \<Rightarrow> jsstring"
  nullishReadMessage :: "jsstring \<Rightarrow> jsstring"
  notPrimitiveMessage :: jsstring
  nullishObjectMessage :: jsstring
  inheritedMemberText :: "jsstring \<Rightarrow> jsstring option"

subsection \<open>Exceptions in pure code\<close>

definition bindE :: "js_error + 'a \<Rightarrow> ('a \<Rightarrow> js_error + 'b) \<Rightarrow> js_error + 'b" where
  "bindE r f = (case r of Inl e \<Rightarrow> Inl e | Inr x \<Rightarrow> f x)"

text \<open>\<^verbatim>\<open>Array.prototype.map\<close> with a callback that may throw: the first throw ends the loop.\<close>

fun mapE :: "('a \<Rightarrow> js_error + 'b) \<Rightarrow> 'a list \<Rightarrow> js_error + 'b list" where
  "mapE f [] = Inr []"
| "mapE f (x # xs) = bindE (f x) (\<lambda>y. bindE (mapE f xs) (\<lambda>ys. Inr (y # ys)))"

subsection \<open>Truthiness, \<^verbatim>\<open>typeof\<close>, \<^verbatim>\<open>Array.isArray\<close>\<close>

fun isTruthy :: "'n platform \<Rightarrow> 'n json option \<Rightarrow> bool" where
  "isTruthy pf None = False"
| "isTruthy pf (Some JNull) = False"
| "isTruthy pf (Some (JBool b)) = b"
| "isTruthy pf (Some (JNum n)) = (\<not> Number_isFalsy pf n)"
| "isTruthy pf (Some (JStr s)) = (s \<noteq> [])"
| "isTruthy pf (Some (JArr xs)) = True"
| "isTruthy pf (Some (JObj kvs)) = True"

fun typeof :: "'n json option \<Rightarrow> jsstring" where
  "typeof None = ascii ''undefined''"
| "typeof (Some JNull) = ascii ''object''"
| "typeof (Some (JBool b)) = ascii ''boolean''"
| "typeof (Some (JNum n)) = ascii ''number''"
| "typeof (Some (JStr s)) = ascii ''string''"
| "typeof (Some (JArr xs)) = ascii ''object''"
| "typeof (Some (JObj kvs)) = ascii ''object''"

fun Array_isArray :: "'n json option \<Rightarrow> bool" where
  "Array_isArray (Some (JArr xs)) = True"
| "Array_isArray _ = False"

subsection \<open>Conversion to text\<close>

fun join :: "jsstring \<Rightarrow> jsstring list \<Rightarrow> jsstring" where
  "join sep [] = []"
| "join sep [s] = s"
| "join sep (s # t # ss) = s @ sep @ join sep (t # ss)"

text \<open>
  \<^verbatim>\<open>ToString\<close> of a JSON value, as a template literal and \<^verbatim>\<open>+\<close> apply it. An array is
  joined with commas, \<^verbatim>\<open>null\<close> elements giving the empty text. A plain object gives
  \<^verbatim>\<open>[object Object]\<close>, unless it has an own property \<^verbatim>\<open>toString\<close>: a JSON value is
  never callable, so the conversion then falls through to \<^verbatim>\<open>valueOf\<close>, which does not
  give a primitive either, and a TypeError is thrown.
\<close>

fun ToString :: "'n platform \<Rightarrow> 'n json \<Rightarrow> js_error + jsstring"
  and elementStrings :: "'n platform \<Rightarrow> 'n json list \<Rightarrow> js_error + jsstring list" where
  "ToString pf JNull = Inr (ascii ''null'')"
| "ToString pf (JBool b) = Inr (if b then ascii ''true'' else ascii ''false'')"
| "ToString pf (JNum n) = Inr (Number_toString pf n)"
| "ToString pf (JStr s) = Inr s"
| "ToString pf (JArr xs) = bindE (elementStrings pf xs) (\<lambda>ss. Inr (join (ascii '','') ss))"
| "ToString pf (JObj kvs) =
     (if ascii ''toString'' \<in> fst ` set kvs then Inl (TypeError (notPrimitiveMessage pf))
      else Inr (ascii ''[object Object]''))"
| "elementStrings pf [] = Inr []"
| "elementStrings pf (x # xs) =
     bindE (case x of JNull \<Rightarrow> Inr [] | _ \<Rightarrow> ToString pf x)
       (\<lambda>s. bindE (elementStrings pf xs) (\<lambda>ss. Inr (s # ss)))"

text \<open>The same for a value that may be \<^verbatim>\<open>undefined\<close>.\<close>

fun toText :: "'n platform \<Rightarrow> 'n json option \<Rightarrow> js_error + jsstring" where
  "toText pf None = Inr (ascii ''undefined'')"
| "toText pf (Some v) = ToString pf v"

subsection \<open>Reading properties\<close>

text \<open>
  \<^verbatim>\<open>value.key\<close>. Reading a property of \<^verbatim>\<open>null\<close> or \<^verbatim>\<open>undefined\<close> throws. The names
  main.js reads (\<^verbatim>\<open>success\<close>, \<^verbatim>\<open>name\<close>, \<^verbatim>\<open>key_factors\<close>, ...) are neither indices nor
  members of a prototype, so arrays and primitives have no such property, and an object
  has it only as its own.
\<close>

fun getProp :: "'n platform \<Rightarrow> 'n json option \<Rightarrow> jsstring \<Rightarrow> js_error + 'n json option" where
  "getProp pf None key = Inl (TypeError (nullishReadMessage pf key))"
| "getProp pf (Some JNull) key = Inl (TypeError (nullishReadMessage pf key))"
| "getProp pf (Some (JObj kvs)) key = Inr (map_of kvs key)"
| "getProp pf (Some _) key = Inr None"

text \<open>\<^verbatim>\<open>value?.key\<close>\<close>

fun getPropOptional :: "'n platform \<Rightarrow> 'n json option \<Rightarrow> jsstring \<Rightarrow> js_error + 'n json option" where
  "getPropOptional pf None key = Inr None"
| "getPropOptional pf (Some JNull) key = Inr None"
| "getPropOptional pf v key = getProp pf v key"

text \<open>The interpolation \<^verbatim>\<open>${value || 'placeholder'}\<close>.\<close>

definition orDefault :: "'n platform \<Rightarrow> 'n json option \<Rightarrow> jsstring \<Rightarrow> js_error + jsstring" where
  "orDefault pf v placeholder = (if isTruthy pf v then toText pf v else Inr placeholder)"

section \<open>The key factors of \<^verbatim>\<open>displayExtractionResults\<close>\<close>

definition lit_unknown_factor :: jsstring where \<comment> \<open>"unknown factor"\<close>
  "lit_unknown_factor = [0x672A, 0x77E5, 0x56E0, 0x5B50]"

definition lit_no_description :: jsstring where \<comment> \<open>"no description"\<close>
  "lit_no_description = [0x65E0, 0x63CF, 0x8FF0]"

definition lit_uncategorized :: jsstring where \<comment> \<open>"uncategorized"\<close>
  "lit_uncategorized = [0x672A, 0x5206, 0x7C7B]"

definition lit_format_error :: jsstring where \<comment> \<open>"key factor data format error"\<close>
  "lit_format_error = [0x5173, 0x952E, 0x56E0, 0x5B50, 0x6570, 0x636E, 0x683C, 0x5F0F, 0x9519, 0x8BEF]"

definition lit_parse_failed :: jsstring where \<comment> \<open>"key factor parsing failed"\<close>
  "lit_parse_failed = [0x5173, 0x952E, 0x56E0, 0x5B50, 0x89E3, 0x6790, 0x5931, 0x8D25]"

definition lit_extracted_factor :: jsstring where \<comment> \<open>"extracted factor"\<close>
  "lit_extracted_factor = [0x63D0, 0x53D6, 0x7684, 0x56E0, 0x5B50]"

definition lit_nothing_extracted :: jsstring where \<comment> \<open>"no key factor information extracted"\<close>
  "lit_nothing_extracted = [0x672A, 0x63D0, 0x53D6, 0x5230, 0x5173, 0x952E, 0x56E0, 0x5B50, 0x4FE1, 0x606F]"

text \<open>
  The script builds the markup of the key factors in one pass. The embedding separates
  what is shown (a list of records, or a marker) from its markup: \<open>keyFactorsView\<close> is the
  \<^verbatim>\<open>if\<close>/\<^verbatim>\<open>else if\<close> chain of lines 171 to 210, \<open>renderFactorsView\<close> the templates, and
  \<open>factorsHtml\<close> the text assigned to the variable of that name.
\<close>

record factor_record =
  factor_name :: jsstring
  factor_description :: jsstring
  factor_type :: jsstring

datatype branch = SequenceBranch | TextBranch | MappingBranch

datatype factors_view =
    FactorRecords branch "factor_record list"
  | FormatError
  | ParseFailure jsstring
  | NothingExtracted

text \<open>
  The callback of \<^verbatim>\<open>map\<close> on lines 172 to 177 (and 183 to 188): the three interpolations
  \<^verbatim>\<open>${factor.name || ...}\<close>, \<^verbatim>\<open>${factor.description || ...}\<close>, \<^verbatim>\<open>${factor.type || ...}\<close>,
  evaluated left to right.
\<close>

definition factorFields :: "'n platform \<Rightarrow> 'n json \<Rightarrow> js_error + factor_record" where
  "factorFields pf factor =
     bindE (getProp pf (Some factor) (ascii ''name'')) (\<lambda>n.
     bindE (orDefault pf n lit_unknown_factor) (\<lambda>name.
     bindE (getProp pf (Some factor) (ascii ''description'')) (\<lambda>d.
     bindE (orDefault pf d lit_no_description) (\<lambda>description.
     bindE (getProp pf (Some factor) (ascii ''type'')) (\<lambda>t.
     bindE (orDefault pf t lit_uncategorized) (\<lambda>type.
     Inr \<lparr>factor_name = name, factor_description = description, factor_type = type\<rparr>))))))"

text \<open>The callback of lines 197 to 201, on one entry of \<^verbatim>\<open>Object.entries\<close>.\<close>

definition entryFields :: "'n platform \<Rightarrow> jsstring \<times> 'n json \<Rightarrow> factor_record" where
  "entryFields pf entry =
     (case entry of (key, value) \<Rightarrow>
        \<lparr>factor_name = key,
         factor_description =
           (if typeof (Some value) = ascii ''string''
            then (case value of JStr s \<Rightarrow> s | _ \<Rightarrow> [])
            else JSON_stringify pf value),
         factor_type = lit_extracted_factor\<rparr>)"

fun arrayElements :: "'n json option \<Rightarrow> 'n json list" where
  "arrayElements (Some (JArr xs)) = xs"
| "arrayElements _ = []"

fun stringValue :: "'n json option \<Rightarrow> jsstring" where
  "stringValue (Some (JStr s)) = s"
| "stringValue _ = []"

text \<open>
  \<^verbatim>\<open>Object.entries\<close>: the own enumerable properties. An array has its indices, a text
  its code units under their indices, a number or a boolean none; \<^verbatim>\<open>null\<close> and
  \<^verbatim>\<open>undefined\<close> cannot be converted to an object.
\<close>

fun decimal :: "nat \<Rightarrow> jsstring" where
  "decimal n = (if n < 10 then [of_nat (48 + n)] else decimal (n div 10) @ [of_nat (48 + n mod 10)])"

fun Object_entries :: "'n platform \<Rightarrow> 'n json option \<Rightarrow> js_error + (jsstring \<times> 'n json) list" where
  "Object_entries pf None = Inl (TypeError (nullishObjectMessage pf))"
| "Object_entries pf (Some JNull) = Inl (TypeError (nullishObjectMessage pf))"
| "Object_entries pf (Some (JObj kvs)) = Inr kvs"
| "Object_entries pf (Some (JArr xs)) = Inr (zip (map decimal [0..<length xs]) xs)"
| "Object_entries pf (Some (JStr s)) = Inr (zip (map decimal [0..<length s]) (map (\<lambda>c. JStr [c]) s))"
| "Object_entries pf (Some _) = Inr []"

text \<open>The body of the \<^verbatim>\<open>try\<close> of lines 180 to 191.\<close>

definition parsedFactorsView :: "'n platform \<Rightarrow> jsstring \<Rightarrow> js_error + factors_view" where
  "parsedFactorsView pf text =
     bindE (JSON_parse pf text) (\<lambda>parsedFactors.
       if Array_isArray (Some parsedFactors)
       then bindE (mapE (factorFields pf) (arrayElements (Some parsedFactors)))
              (\<lambda>rs. Inr (FactorRecords TextBranch rs))
       else Inr FormatError)"

definition keyFactorsView :: "'n platform \<Rightarrow> 'n json option \<Rightarrow> js_error + factors_view" where
  "keyFactorsView pf key_factors =
     (if isTruthy pf key_factors \<and> Array_isArray key_factors then
        bindE (mapE (factorFields pf) (arrayElements key_factors))
          (\<lambda>rs. Inr (FactorRecords SequenceBranch rs))
      else if isTruthy pf key_factors \<and> typeof key_factors = ascii ''string'' then
        (case parsedFactorsView pf (stringValue key_factors) of
           Inr view \<Rightarrow> Inr view
         | Inl e \<Rightarrow> Inr (ParseFailure (stringValue key_factors)))
      else if isTruthy pf key_factors \<and> typeof key_factors = ascii ''object'' then
        bindE (Object_entries pf key_factors)
          (\<lambda>entries. Inr (FactorRecords MappingBranch (map (entryFields pf) entries)))
      else Inr NothingExtracted)"

subsection \<open>The markup\<close>

definition spaces :: "nat \<Rightarrow> jsstring" where
  "spaces n = replicate n 0x20"

definition newline :: jsstring where
  "newline = [0x0A]"

text \<open>
  The template of one factor. Its continuation lines are indented as in the source: by
  12 columns on lines 173 to 176 and 203 to 206, by 20 on lines 184 to 187.
\<close>

definition factorDiv :: "nat \<Rightarrow> factor_record \<Rightarrow> jsstring" where
  \<open>factorDiv indent r =
     ascii ''<div class="mb-2">'' @ newline @
     spaces (indent + 4) @ ascii ''<strong>'' @ factor_name r @ ascii '':</strong> '' @
       factor_description r @ newline @
     spaces (indent + 4) @ ascii ''<span class="badge bg-secondary">'' @ factor_type r @
       ascii ''</span>'' @ newline @
     spaces indent @ ascii ''</div>''\<close>

fun indentOf :: "branch \<Rightarrow> nat" where
  "indentOf SequenceBranch = 12"
| "indentOf TextBranch = 20"
| "indentOf MappingBranch = 12"

fun renderFactorsView :: "factors_view \<Rightarrow> jsstring" where
  \<open>renderFactorsView (FactorRecords b rs) = concat (map (factorDiv (indentOf b)) rs)\<close>
| \<open>renderFactorsView FormatError =
     ascii ''<div class="alert alert-warning">'' @ lit_format_error @ ascii ''</div>''\<close>
| \<open>renderFactorsView (ParseFailure raw) =
     ascii ''<div class="alert alert-warning">'' @ lit_parse_failed @ ascii '': '' @ raw @
     ascii ''</div>''\<close>
| \<open>renderFactorsView NothingExtracted =
     ascii ''<div class="alert alert-info">'' @ lit_nothing_extracted @ ascii ''</div>''\<close>

definition factorsHtml :: "'n platform \<Rightarrow> 'n json option \<Rightarrow> js_error + jsstring" where
  "factorsHtml pf key_factors = bindE (keyFactorsView pf key_factors) (\<lambda>v. Inr (renderFactorsView v))"

section \<open>The page: globals, document and effects\<close>

text \<open>
  The markup of the page (\<^verbatim>\<open>index.html\<close>) is not part of the script: the document is a
  parameter, a partial map from ids to elements. An element carries the properties the
  script reads or writes.
\<close>

datatype content = TextContent jsstring | InnerHTML jsstring

record element =
  classList :: "jsstring list"
  content :: content
  disabled :: bool
  display :: jsstring
  elementValue :: jsstring
  files :: "jsstring list"

text \<open>
  An element of class \<^verbatim>\<open>loading\<close>, as \<^verbatim>\<open>showLoading\<close> sees it: the text of
  \<^verbatim>\<open>el.closest('.card').querySelector('.card-header')\<close>, or \<open>None\<close> when the card or its
  header is missing, and its own \<^verbatim>\<open>style.display\<close>. The markup that the script writes
  into its display containers is taken to hold no such element and no card header, so
  the list and the headers stay as the page had them.
\<close>

record loading_element =
  cardHeader :: "jsstring option"
  loadingDisplay :: jsstring

datatype status = pending | processing | success | error

datatype request_body = FormData jsstring | JsonBody jsstring

text \<open>The log of what an observer of the page sees in order: requests sent, status badges set.\<close>

datatype event = Fetch jsstring request_body | StatusSet jsstring status

text \<open>
  What the awaited \<^verbatim>\<open>fetch\<close> and \<^verbatim>\<open>response.json()\<close> come back with: the request fails,
  the body is not JSON, or the body is a JSON value.
\<close>

datatype 'n response = FetchRejected js_error | BodyRejected js_error | Body "'n json"

record 'n dataset =
  label :: jsstring
  seriesData :: "'n json option"
  borderColor :: jsstring
  backgroundColor :: jsstring
  borderWidth :: "nat option"
  fill :: bool
  tension :: jsstring

record 'n chart_config =
  chartType :: jsstring
  labels :: "'n json option"
  datasets :: "'n dataset list"
  responsive :: bool
  maintainAspectRatio :: bool
  titleText :: jsstring
  legendPosition :: jsstring
  xTitle :: jsstring
  yTitle :: jsstring
  yTicksCallback :: "'n \<Rightarrow> jsstring"
  interactionIntersect :: bool
  interactionMode :: jsstring

text \<open>What the charting library is asked to do, in order.\<close>

datatype chart_event = ChartDestroyed nat | ChartCreated nat

text \<open>
  The globals of lines 2 to 5, the document, the chart instances that are attached to
  the canvas (created and not destroyed, each under the number of its creation), the
  alerts shown and the two logs.
\<close>

record 'n page =
  currentMarkdownContent :: "'n json option"
  currentExtractedInfo :: "'n json option"
  currentFactorCode :: "'n json option"
  backtestChart :: "nat option"
  elements :: "jsstring \<Rightarrow> element option"
  loadingElements :: "loading_element list"
  charts :: "(nat \<times> 'n chart_config) list"
  chartsCreated :: nat
  chartLog :: "chart_event list"
  alerts :: "jsstring list"
  trace :: "event list"

definition initialPage :: "(jsstring \<Rightarrow> element option) \<Rightarrow> loading_element list \<Rightarrow> 'n page" where
  "initialPage document loading =
     \<lparr>currentMarkdownContent = Some (JStr []),
      currentExtractedInfo = Some (JObj []),
      currentFactorCode = Some (JStr []),
      backtestChart = None,
      elements = document,
      loadingElements = loading,
      charts = [],
      chartsCreated = 0,
      chartLog = [],
      alerts = [],
      trace = []\<rparr>"

subsection \<open>Statements that change the page or throw\<close>

type_synonym ('n, 'a) js = "'n page \<Rightarrow> (js_error + 'a) \<times> 'n page"

definition js_return :: "'a \<Rightarrow> ('n, 'a) js" where
  "js_return x s = (Inr x, s)"

definition js_pure :: "js_error + 'a \<Rightarrow> ('n, 'a) js" where
  "js_pure r s = (r, s)"

definition js_bind :: "('n, 'a) js \<Rightarrow> ('a \<Rightarrow> ('n, 'b) js) \<Rightarrow> ('n, 'b) js" where
  "js_bind m f s = (case m s of (Inl e, s') \<Rightarrow> (Inl e, s') | (Inr x, s') \<Rightarrow> f x s')"

definition js_then :: "('n, 'a) js \<Rightarrow> ('n, 'b) js \<Rightarrow> ('n, 'b) js" where
  "js_then m n = js_bind m (\<lambda>_. n)"

definition js_modify :: "('n page \<Rightarrow> 'n page) \<Rightarrow> ('n, unit) js" where
  "js_modify f s = (Inr (), f s)"

text \<open>
  \<^verbatim>\<open>try { body } catch (e) { handler } finally { finalizer }\<close>: the finalizer runs on every
  path, and a throw of its own replaces the outcome.
\<close>

definition tryCatchFinally ::
  "('n, 'a) js \<Rightarrow> (js_error \<Rightarrow> ('n, 'a) js) \<Rightarrow> ('n, unit) js \<Rightarrow> ('n, 'a) js" where
  "tryCatchFinally body handler finalizer s =
     (case (case body s of (Inl e, s1) \<Rightarrow> handler e s1 | (Inr x, s1) \<Rightarrow> (Inr x, s1)) of
        (r, s2) \<Rightarrow>
          (case finalizer s2 of (Inl e, s3) \<Rightarrow> (Inl e, s3) | (Inr u, s3) \<Rightarrow> (r, s3)))"

text \<open>\<^verbatim>\<open>document.getElementById(id).property\<close>, read and written without a guard.\<close>

definition readElement :: "'n platform \<Rightarrow> jsstring \<Rightarrow> jsstring \<Rightarrow> (element \<Rightarrow> 'a) \<Rightarrow> ('n, 'a) js" where
  "readElement pf ident property read s =
     (case elements s ident of
        None \<Rightarrow> (Inl (TypeError (nullishReadMessage pf property)), s)
      | Some el \<Rightarrow> (Inr (read el), s))"

definition writeElement :: "'n platform \<Rightarrow> jsstring \<Rightarrow> jsstring \<Rightarrow> (element \<Rightarrow> element) \<Rightarrow> ('n, unit) js" where
  "writeElement pf ident property change s =
     (case elements s ident of
        None \<Rightarrow> (Inl (TypeError (nullishReadMessage pf property)), s)
      | Some el \<Rightarrow> (Inr (), s\<lparr>elements := (elements s)(ident \<mapsto> change el)\<rparr>))"

text \<open>The same behind \<^verbatim>\<open>if (element) { ... }\<close>.\<close>

definition writeElementIfPresent :: "jsstring \<Rightarrow> (element \<Rightarrow> element) \<Rightarrow> ('n, unit) js" where
  "writeElementIfPresent ident change s =
     (case elements s ident of
        None \<Rightarrow> (Inr (), s)
      | Some el \<Rightarrow> (Inr (), s\<lparr>elements := (elements s)(ident \<mapsto> change el)\<rparr>))"

definition alert :: "jsstring \<Rightarrow> ('n, unit) js" where
  "alert text = js_modify (\<lambda>s. s\<lparr>alerts := alerts s @ [text]\<rparr>)"

text \<open>
  \<^verbatim>\<open>await fetch(url, {method: 'POST', body})\<close> followed by \<^verbatim>\<open>await response.json()\<close>: the
  request is logged as sent, then the outcome decides.
\<close>

definition fetchJson :: "jsstring \<Rightarrow> request_body \<Rightarrow> 'n response \<Rightarrow> ('n, 'n json) js" where
  "fetchJson url body response =
     js_then (js_modify (\<lambda>s. s\<lparr>trace := trace s @ [Fetch url body]\<rparr>))
       (js_pure (case response of
                   FetchRejected e \<Rightarrow> Inl e
                 | BodyRejected e \<Rightarrow> Inl e
                 | Body result \<Rightarrow> Inr result))"

text \<open>
  An object literal whose property values may be \<^verbatim>\<open>undefined\<close>, as \<^verbatim>\<open>JSON.stringify\<close>
  sees it: it leaves such properties out.
\<close>

definition objectLiteral :: "(jsstring \<times> 'n json option) list \<Rightarrow> 'n json" where
  "objectLiteral properties = JObj (List.map_filter (\<lambda>(key, v). map_option (Pair key) v) properties)"

text \<open>
  Assigning to \<^verbatim>\<open>textContent\<close> converts the value to text, \<^verbatim>\<open>null\<close> and \<^verbatim>\<open>undefined\<close>
  giving the empty text. In \<^verbatim>\<open>document.getElementById(id).textContent = value\<close> a missing
  element throws before the value is converted.
\<close>

fun domText :: "'n platform \<Rightarrow> 'n json option \<Rightarrow> js_error + jsstring" where
  "domText pf None = Inr []"
| "domText pf (Some JNull) = Inr []"
| "domText pf (Some v) = ToString pf v"

definition setTextContent :: "'n platform \<Rightarrow> jsstring \<Rightarrow> 'n json option \<Rightarrow> ('n, unit) js" where
  "setTextContent pf ident v s =
     (case elements s ident of
        None \<Rightarrow> (Inl (TypeError (nullishReadMessage pf (ascii ''textContent''))), s)
      | Some el \<Rightarrow>
          (case domText pf v of
             Inl e \<Rightarrow> (Inl e, s)
           | Inr text \<Rightarrow> (Inr (), s\<lparr>elements := (elements s)(ident \<mapsto> el\<lparr>content := TextContent text\<rparr>)\<rparr>)))"

text \<open>
  \<^verbatim>\<open>Prism.highlightElement\<close> belongs to a library the page loads; it restyles the element
  it is given and touches nothing the script reads.
\<close>

definition Prism_highlightElement :: "jsstring \<Rightarrow> ('n, unit) js" where
  "Prism_highlightElement ident = js_return ()"

section \<open>The functions of main.js\<close>

subsection \<open>\<^verbatim>\<open>updateStatus\<close>, lines 13 to 37\<close>

definition lit_pending :: jsstring where \<comment> \<open>"pending"\<close>
  "lit_pending = [0x5F85, 0x5904, 0x7406]"

definition lit_processing :: jsstring where \<comment> \<open>"processing"\<close>
  "lit_processing = [0x5904, 0x7406, 0x4E2D]"

definition lit_completed :: jsstring where \<comment> \<open>"completed"\<close>
  "lit_completed = [0x5DF2, 0x5B8C, 0x6210]"

definition lit_failed :: jsstring where \<comment> \<open>"failed"\<close>
  "lit_failed = [0x5931, 0x8D25]"

fun statusClasses :: "status \<Rightarrow> jsstring" where
  "statusClasses pending = ascii ''bg-secondary''"
| "statusClasses processing = ascii ''bg-warning''"
| "statusClasses success = ascii ''bg-success''"
| "statusClasses error = ascii ''bg-danger''"

fun statusTexts :: "status \<Rightarrow> jsstring" where
  "statusTexts pending = lit_pending"
| "statusTexts processing = lit_processing"
| "statusTexts success = lit_completed"
| "statusTexts error = lit_failed"

text \<open>\<^verbatim>\<open>Object.values(statusClasses)\<close>, in the order of the literal.\<close>

definition statusClassValues :: "jsstring list" where
  "statusClassValues = map statusClasses [pending, processing, success, error]"

text \<open>A class list is an ordered set of tokens.\<close>

definition classList_remove :: "jsstring \<Rightarrow> jsstring list \<Rightarrow> jsstring list" where
  "classList_remove cls tokens = removeAll cls tokens"

definition classList_add :: "jsstring \<Rightarrow> jsstring list \<Rightarrow> jsstring list" where
  "classList_add cls tokens = (if cls \<in> set tokens then tokens else tokens @ [cls])"

text \<open>
  The status is one of the four keys of the two tables: every call of the script passes
  one of them as a literal. A missing badge makes the first \<^verbatim>\<open>classList\<close> access throw,
  before anything is changed.
\<close>

definition updateStatus :: "'n platform \<Rightarrow> jsstring \<Rightarrow> status \<Rightarrow> ('n, unit) js" where
  "updateStatus pf step status =
     js_then
       (writeElement pf (step @ ascii ''Status'') (ascii ''classList'')
          (\<lambda>statusElement. statusElement
             \<lparr>classList :=
                classList_add (statusClasses status)
                  (fold classList_remove statusClassValues (classList statusElement)),
              content := TextContent (statusTexts status)\<rparr>))
       (js_modify (\<lambda>s. s\<lparr>trace := trace s @ [StatusSet step status]\<rparr>))"

subsection \<open>\<^verbatim>\<open>toggleButton\<close>, \<^verbatim>\<open>toggleInputs\<close>, \<^verbatim>\<open>showResult\<close>\<close>

definition toggleButton :: "jsstring \<Rightarrow> bool \<Rightarrow> ('n, unit) js" where
  "toggleButton buttonId enabled =
     writeElementIfPresent buttonId (\<lambda>button. button\<lparr>disabled := \<not> enabled\<rparr>)"

fun toggleInputs :: "jsstring list \<Rightarrow> bool \<Rightarrow> ('n, unit) js" where
  "toggleInputs [] enabled = js_return ()"
| "toggleInputs (ident # inputIds) enabled =
     js_then (writeElementIfPresent ident (\<lambda>input. input\<lparr>disabled := \<not> enabled\<rparr>))
       (toggleInputs inputIds enabled)"

definition showResult :: "jsstring \<Rightarrow> ('n, unit) js" where
  "showResult resultId =
     writeElementIfPresent resultId (\<lambda>result. result\<lparr>display := ascii ''block''\<rparr>)"

subsection \<open>\<^verbatim>\<open>showLoading\<close> and \<^verbatim>\<open>hideLoading\<close>, lines 495 to 512\<close>

text \<open>\<^verbatim>\<open>haystack.includes(needle)\<close>\<close>

fun String_includes :: "jsstring \<Rightarrow> jsstring \<Rightarrow> bool" where
  "String_includes [] needle = (needle = [])"
| "String_includes (c # cs) needle =
     (take (length needle) (c # cs) = needle \<or> String_includes cs needle)"

text \<open>\<^verbatim>\<open>context.split(' ')[0]\<close>\<close>

definition firstWord :: "jsstring \<Rightarrow> jsstring" where
  "firstWord context = takeWhile (\<lambda>c. c \<noteq> 0x20) context"

text \<open>
  The \<^verbatim>\<open>forEach\<close> over the elements of class \<^verbatim>\<open>loading\<close>, setting the display of those
  whose card header holds the first word of the context. An element without card or
  header ends the loop with a TypeError, the elements before it already set.
\<close>

fun setLoadingDisplay ::
  "'n platform \<Rightarrow> jsstring \<Rightarrow> jsstring \<Rightarrow> loading_element list \<Rightarrow> (js_error + unit) \<times> loading_element list" where
  "setLoadingDisplay pf shown context [] = (Inr (), [])"
| "setLoadingDisplay pf shown context (el # els) =
     (case cardHeader el of
        None \<Rightarrow> (Inl (TypeError (nullishReadMessage pf (ascii ''querySelector''))), el # els)
      | Some header \<Rightarrow>
          (case setLoadingDisplay pf shown context els of
             (r, els') \<Rightarrow>
               (r, (if String_includes header (firstWord context) then el\<lparr>loadingDisplay := shown\<rparr>
                    else el) # els')))"

definition showLoading :: "'n platform \<Rightarrow> jsstring \<Rightarrow> ('n, unit) js" where
  "showLoading pf context s =
     (case setLoadingDisplay pf (ascii ''block'') context (loadingElements s) of
        (r, els) \<Rightarrow> (r, s\<lparr>loadingElements := els\<rparr>))"

definition hideLoading :: "'n platform \<Rightarrow> jsstring \<Rightarrow> ('n, unit) js" where
  "hideLoading pf context s =
     (case setLoadingDisplay pf (ascii ''none'') context (loadingElements s) of
        (r, els) \<Rightarrow> (r, s\<lparr>loadingElements := els\<rparr>))"

subsection \<open>\<^verbatim>\<open>displayExtractionResults\<close>, lines 147 to 218\<close>

definition lit_unknown :: jsstring where \<comment> \<open>"unknown"\<close>
  "lit_unknown = [0x672A, 0x77E5]"

definition lit_no_core_problem :: jsstring where \<comment> \<open>"no core problem extracted"\<close>
  "lit_no_core_problem = [0x672A, 0x63D0, 0x53D6, 0x5230, 0x6838, 0x5FC3, 0x95EE, 0x9898]"

definition lit_primary_source :: jsstring where \<comment> \<open>"primary data source"\<close>
  "lit_primary_source = [0x4E3B, 0x8981, 0x6570, 0x636E, 0x6E90]"

definition lit_time_range :: jsstring where \<comment> \<open>"time range"\<close>
  "lit_time_range = [0x65F6, 0x95F4, 0x8303, 0x56F4]"

definition lit_frequency :: jsstring where \<comment> \<open>"data frequency"\<close>
  "lit_frequency = [0x6570, 0x636E, 0x9891, 0x7387]"

definition lit_method :: jsstring where \<comment> \<open>"method"\<close>
  "lit_method = [0x65B9, 0x6CD5]"

definition lit_algorithm :: jsstring where \<comment> \<open>"algorithm"\<close>
  "lit_algorithm = [0x7B97, 0x6CD5]"

definition lit_strategy :: jsstring where \<comment> \<open>"strategy"\<close>
  "lit_strategy = [0x7B56, 0x7565]"

text \<open>
  One line \<^verbatim>\<open><p><strong>caption:</strong> ${info.part?.key || 'unknown'}</p>\<close> of the
  templates of lines 149 to 153 and 160 to 164, with its leading line break.
\<close>

definition captionLine ::
  "'n platform \<Rightarrow> 'n json option \<Rightarrow> jsstring \<Rightarrow> jsstring \<Rightarrow> jsstring \<Rightarrow> js_error + jsstring" where
  "captionLine pf info part caption key =
     bindE (getProp pf info part) (\<lambda>g.
     bindE (getPropOptional pf g key) (\<lambda>v.
     bindE (orDefault pf v lit_unknown) (\<lambda>text.
     Inr (newline @ spaces 8 @ ascii ''<p><strong>'' @ caption @ ascii '':</strong> '' @ text @
          ascii ''</p>''))))"

definition datasetHtml :: "'n platform \<Rightarrow> 'n json option \<Rightarrow> js_error + jsstring" where
  "datasetHtml pf info =
     bindE (captionLine pf info (ascii ''datasets'') lit_primary_source (ascii ''primary'')) (\<lambda>l1.
     bindE (captionLine pf info (ascii ''datasets'') lit_time_range (ascii ''time_range'')) (\<lambda>l2.
     bindE (captionLine pf info (ascii ''datasets'') lit_frequency (ascii ''frequency'')) (\<lambda>l3.
     Inr (l1 @ l2 @ l3 @ newline @ spaces 4))))"

definition coreProblemHtml :: "'n platform \<Rightarrow> 'n json option \<Rightarrow> js_error + jsstring" where
  "coreProblemHtml pf info =
     bindE (getProp pf info (ascii ''core_problem'')) (\<lambda>v.
     bindE (orDefault pf v lit_no_core_problem) (\<lambda>text.
     Inr (ascii ''<p>'' @ text @ ascii ''</p>'')))"

definition solutionHtml :: "'n platform \<Rightarrow> 'n json option \<Rightarrow> js_error + jsstring" where
  "solutionHtml pf info =
     bindE (captionLine pf info (ascii ''solution'') lit_method (ascii ''method'')) (\<lambda>l1.
     bindE (captionLine pf info (ascii ''solution'') lit_algorithm (ascii ''algorithm'')) (\<lambda>l2.
     bindE (captionLine pf info (ascii ''solution'') lit_strategy (ascii ''strategy'')) (\<lambda>l3.
     Inr (l1 @ l2 @ l3 @ newline @ spaces 4))))"

definition setInnerHTML :: "'n platform \<Rightarrow> jsstring \<Rightarrow> jsstring \<Rightarrow> ('n, unit) js" where
  "setInnerHTML pf ident html =
     writeElement pf ident (ascii ''innerHTML'') (\<lambda>el. el\<lparr>content := InnerHTML html\<rparr>)"

text \<open>The three calls of \<^verbatim>\<open>console.log\<close> at the end leave no trace on the page.\<close>

definition displayExtractionResults :: "'n platform \<Rightarrow> 'n json option \<Rightarrow> ('n, unit) js" where
  "displayExtractionResults pf info =
     js_bind (js_pure (datasetHtml pf info)) (\<lambda>html1.
     js_then (setInnerHTML pf (ascii ''datasetInfo'') html1)
    (js_bind (js_pure (coreProblemHtml pf info)) (\<lambda>html2.
     js_then (setInnerHTML pf (ascii ''coreProblem'') html2)
    (js_bind (js_pure (solutionHtml pf info)) (\<lambda>html3.
     js_then (setInnerHTML pf (ascii ''solution'') html3)
    (js_bind (js_pure (bindE (getProp pf info (ascii ''key_factors'')) (factorsHtml pf))) (\<lambda>html4.
     setInnerHTML pf (ascii ''keyFactors'') html4)))))))"

subsection \<open>\<^verbatim>\<open>drawReturnsChart\<close>, lines 389 to 492\<close>

definition lit_lowest :: jsstring where \<comment> \<open>"lowest"\<close>
  "lit_lowest = [0x6700, 0x4F4E]"

definition lit_highest :: jsstring where \<comment> \<open>"highest"\<close>
  "lit_highest = [0x6700, 0x9AD8]"

definition lit_long_short :: jsstring where \<comment> \<open>"long-short strategy"\<close>
  "lit_long_short = [0x591A, 0x7A7A, 0x7B56, 0x7565]"

definition lit_chart_title :: jsstring where \<comment> \<open>"comparison of cumulative returns by factor quantile"\<close>
  "lit_chart_title = [0x56E0, 0x5B50, 0x5206, 0x5C42, 0x7D2F, 0x8BA1, 0x6536, 0x76CA, 0x7387, 0x5BF9, 0x6BD4]"

definition lit_date :: jsstring where \<comment> \<open>"date"\<close>
  "lit_date = [0x65E5, 0x671F]"

definition lit_cumulative_return :: jsstring where \<comment> \<open>"cumulative return"\<close>
  "lit_cumulative_return = [0x7D2F, 0x8BA1, 0x6536, 0x76CA, 0x7387]"

text \<open>
  One entry of \<^verbatim>\<open>datasets\<close>. Colours are the triples of \<^verbatim>\<open>rgb(r, g, b)\<close>; the background
  is the same colour at opacity 0.1.
\<close>

definition series ::
  "jsstring \<Rightarrow> 'n json option \<Rightarrow> string \<Rightarrow> nat option \<Rightarrow> 'n dataset" where
  "series caption points rgb width =
     \<lparr>label = caption,
      seriesData = points,
      borderColor = ascii ''rgb('' @ ascii rgb @ ascii '')'',
      backgroundColor = ascii ''rgba('' @ ascii rgb @ ascii '', 0.1)'',
      borderWidth = width,
      fill = False,
      tension = ascii ''0.1''\<rparr>"

text \<open>The tick callback of lines 480 to 482: \<^verbatim>\<open>(value * 100).toFixed(1) + '%'\<close>.\<close>

definition ticksCallback :: "'n platform \<Rightarrow> 'n \<Rightarrow> jsstring" where
  "ticksCallback pf v =
     Number_toFixed pf (Number_multiply pf v (Number_literal pf 100)) 1 @ ascii ''%''"

text \<open>
  The configuration object of lines 397 to 491. Its properties are evaluated in the
  order written; the first, \<^verbatim>\<open>data.dates\<close>, throws when \<^verbatim>\<open>data\<close> is \<^verbatim>\<open>null\<close> or
  \<^verbatim>\<open>undefined\<close>.
\<close>

definition chartConfig :: "'n platform \<Rightarrow> 'n json option \<Rightarrow> js_error + 'n chart_config" where
  "chartConfig pf data =
     bindE (getProp pf data (ascii ''dates'')) (\<lambda>dates.
     bindE (getProp pf data (ascii ''Q1'')) (\<lambda>q1.
     bindE (getProp pf data (ascii ''Q2'')) (\<lambda>q2.
     bindE (getProp pf data (ascii ''Q3'')) (\<lambda>q3.
     bindE (getProp pf data (ascii ''Q4'')) (\<lambda>q4.
     bindE (getProp pf data (ascii ''Q5'')) (\<lambda>q5.
     bindE (getProp pf data (ascii ''long_short'')) (\<lambda>ls.
     Inr \<lparr>chartType = ascii ''line'',
          labels = dates,
          datasets =
            [series (ascii ''Q1 ('' @ lit_lowest @ ascii '')'') q1 ''255, 99, 132'' None,
             series (ascii ''Q2'') q2 ''255, 159, 64'' None,
             series (ascii ''Q3'') q3 ''255, 205, 86'' None,
             series (ascii ''Q4'') q4 ''75, 192, 192'' None,
             series (ascii ''Q5 ('' @ lit_highest @ ascii '')'') q5 ''54, 162, 235'' None,
             series lit_long_short ls ''153, 102, 255'' (Some 3)],
          responsive = True,
          maintainAspectRatio = False,
          titleText = lit_chart_title,
          legendPosition = ascii ''top'',
          xTitle = lit_date,
          yTitle = lit_cumulative_return,
          yTicksCallback = ticksCallback pf,
          interactionIntersect = False,
          interactionMode = ascii ''index''\<rparr>)))))))"

text \<open>
  \<^verbatim>\<open>chart.destroy()\<close> detaches the instance; \<^verbatim>\<open>new Chart(ctx, config)\<close> attaches a new
  one. Both belong to the charting library, which keeps no other state the script
  reads.
\<close>

definition Chart_destroy :: "nat \<Rightarrow> ('n, unit) js" where
  "Chart_destroy c =
     js_modify (\<lambda>s. s\<lparr>charts := filter (\<lambda>entry. fst entry \<noteq> c) (charts s),
                        chartLog := chartLog s @ [ChartDestroyed c]\<rparr>)"

definition Chart_new :: "'n chart_config \<Rightarrow> ('n, nat) js" where
  "Chart_new config s =
     (Inr (chartsCreated s),
      s\<lparr>charts := charts s @ [(chartsCreated s, config)],
        chartsCreated := Suc (chartsCreated s),
        chartLog := chartLog s @ [ChartCreated (chartsCreated s)]\<rparr>)"

definition drawReturnsChart :: "'n platform \<Rightarrow> 'n json option \<Rightarrow> ('n, unit) js" where
  "drawReturnsChart pf data =
     js_bind (readElement pf (ascii ''returnsChart'') (ascii ''getContext'') (\<lambda>canvas. ())) (\<lambda>ctx.
     js_then (\<lambda>s. case backtestChart s of None \<Rightarrow> js_return () s | Some c \<Rightarrow> Chart_destroy c s)
    (js_bind (js_pure (chartConfig pf data)) (\<lambda>config.
     js_bind (Chart_new config) (\<lambda>c.
     js_modify (\<lambda>s. s\<lparr>backtestChart := Some c\<rparr>)))))"

subsection \<open>\<^verbatim>\<open>displayBacktestResults\<close>, lines 355 to 386\<close>

definition lit_annual_return :: jsstring where \<comment> \<open>"annualised return"\<close>
  "lit_annual_return = [0x5E74, 0x5316, 0x6536, 0x76CA]"

definition lit_volatility :: jsstring where \<comment> \<open>"volatility"\<close>
  "lit_volatility = [0x6CE2, 0x52A8, 0x7387]"

definition lit_sharpe :: jsstring where \<comment> \<open>"Sharpe"\<close>
  "lit_sharpe = [0x590F, 0x666E]"

definition lit_max_drawdown :: jsstring where \<comment> \<open>"maximum drawdown"\<close>
  "lit_max_drawdown = [0x6700, 0x5927, 0x56DE, 0x64A4]"

definition strategyNames :: "(jsstring \<times> jsstring) list" where
  "strategyNames =
     [(ascii ''Q1_return'', ascii ''Q1 ('' @ lit_lowest @ ascii '')''),
      (ascii ''Q2_return'', ascii ''Q2''),
      (ascii ''Q3_return'', ascii ''Q3''),
      (ascii ''Q4_return'', ascii ''Q4''),
      (ascii ''Q5_return'', ascii ''Q5 ('' @ lit_highest @ ascii '')''),
      (ascii ''long_short'', lit_long_short)]"

text \<open>
  \<^verbatim>\<open>{...}[strategy] || strategy\<close>. A key that is not in the literal may still name a
  member every object inherits (\<^verbatim>\<open>constructor\<close>, \<^verbatim>\<open>toString\<close>, ...), which is truthy; the
  engine says which and what text it converts to.
\<close>

definition strategyName :: "'n platform \<Rightarrow> jsstring \<Rightarrow> jsstring" where
  "strategyName pf strategy =
     (case map_of strategyNames strategy of
        Some name \<Rightarrow> name
      | None \<Rightarrow> (case inheritedMemberText pf strategy of Some text \<Rightarrow> text | None \<Rightarrow> strategy))"

text \<open>The callback of lines 357 to 380, on one entry of \<^verbatim>\<open>performance_stats\<close>.\<close>

definition statsCard :: "'n platform \<Rightarrow> jsstring \<times> 'n json \<Rightarrow> js_error + jsstring" where
  \<open>statsCard pf entry =
     (case entry of (strategy, stats) \<Rightarrow>
        bindE (bindE (getProp pf (Some stats) (ascii ''annual_return'')) (toText pf)) (\<lambda>annual_return.
        bindE (bindE (getProp pf (Some stats) (ascii ''annual_volatility'')) (toText pf)) (\<lambda>annual_volatility.
        bindE (bindE (getProp pf (Some stats) (ascii ''sharpe_ratio'')) (toText pf)) (\<lambda>sharpe_ratio.
        bindE (bindE (getProp pf (Some stats) (ascii ''max_drawdown'')) (toText pf)) (\<lambda>max_drawdown.
        Inr (newline @
             spaces 12 @ ascii ''<div class="card mb-2">'' @ newline @
             spaces 16 @ ascii ''<div class="card-body p-2">'' @ newline @
             spaces 20 @ ascii ''<h6 class="card-title mb-1">'' @ strategyName pf strategy @
               ascii ''</h6>'' @ newline @
             spaces 20 @ ascii ''<small class="text-muted">'' @ newline @
             spaces 24 @ lit_annual_return @ ascii '': <span class="text-primary">'' @
               annual_return @ ascii ''%</span> | '' @ newline @
             spaces 24 @ lit_volatility @ ascii '': '' @ annual_volatility @ ascii ''% | '' @ newline @
             spaces 24 @ lit_sharpe @ ascii '': '' @ sharpe_ratio @ ascii '' | '' @ newline @
             spaces 24 @ lit_max_drawdown @ ascii '': <span class="text-danger">'' @
               max_drawdown @ ascii ''%</span>'' @ newline @
             spaces 20 @ ascii ''</small>'' @ newline @
             spaces 16 @ ascii ''</div>'' @ newline @
             spaces 12 @ ascii ''</div>'' @ newline @
             spaces 8))))))\<close>

definition statsHtml :: "'n platform \<Rightarrow> 'n json option \<Rightarrow> js_error + jsstring" where
  "statsHtml pf results =
     bindE (getProp pf results (ascii ''performance_stats'')) (\<lambda>performance_stats.
     bindE (Object_entries pf performance_stats) (\<lambda>entries.
     bindE (mapE (statsCard pf) entries) (\<lambda>cards.
     Inr (concat cards))))"

definition displayBacktestResults :: "'n platform \<Rightarrow> 'n json option \<Rightarrow> ('n, unit) js" where
  "displayBacktestResults pf results =
     js_bind (js_pure (statsHtml pf results)) (\<lambda>html.
     js_then (setInnerHTML pf (ascii ''performanceStats'') html)
    (js_bind (js_pure (getProp pf results (ascii ''cumulative_returns''))) (\<lambda>cumulative_returns.
     drawReturnsChart pf cumulative_returns)))"

subsection \<open>\<^verbatim>\<open>uploadPDF\<close>, lines 58 to 100\<close>

definition lit_choose_pdf :: jsstring where \<comment> \<open>"please choose a PDF file"\<close>
  "lit_choose_pdf = [0x8BF7, 0x9009, 0x62E9, 0x50, 0x44, 0x46, 0x6587, 0x4EF6]"

definition lit_pdf_upload :: jsstring where \<comment> \<open>"PDF upload"\<close>
  "lit_pdf_upload = [0x50, 0x44, 0x46, 0x4E0A, 0x4F20]"

definition lit_conversion_failed :: jsstring where \<comment> \<open>"conversion failed"\<close>
  "lit_conversion_failed = [0x8F6C, 0x6362, 0x5931, 0x8D25]"

definition lit_upload_failed :: jsstring where \<comment> \<open>"upload failed"\<close>
  "lit_upload_failed = [0x4E0A, 0x4F20, 0x5931, 0x8D25]"

text \<open>
  The four workflow functions share one shape. Each takes, besides the page, the
  outcome of its one request; what runs between the \<^verbatim>\<open>await\<close>s of other handlers is not
  part of one call.

  The \<^verbatim>\<open>else\<close> branch and the \<^verbatim>\<open>catch\<close> block: an alert of a caption and a text, then the
  error badge.
\<close>

definition reportFailure :: "'n platform \<Rightarrow> jsstring \<Rightarrow> jsstring \<Rightarrow> jsstring \<Rightarrow> ('n, unit) js" where
  "reportFailure pf step caption text =
     js_then (alert (caption @ ascii '': '' @ text)) (updateStatus pf step error)"

text \<open>\<^verbatim>\<open>alert(caption + result.error); updateStatus(step, 'error')\<close>\<close>

definition businessFailure :: "'n platform \<Rightarrow> jsstring \<Rightarrow> jsstring \<Rightarrow> 'n json \<Rightarrow> ('n, unit) js" where
  "businessFailure pf step caption result =
     js_bind (js_pure (bindE (getProp pf (Some result) (ascii ''error'')) (toText pf))) (\<lambda>text.
     reportFailure pf step caption text)"

definition uploadPDF_success :: "'n platform \<Rightarrow> 'n json \<Rightarrow> ('n, unit) js" where
  "uploadPDF_success pf result =
     js_bind (js_pure (getProp pf (Some result) (ascii ''markdown_content''))) (\<lambda>markdown_content.
     js_then (js_modify (\<lambda>s. s\<lparr>currentMarkdownContent := markdown_content\<rparr>))
    (js_then (setTextContent pf (ascii ''markdownContent'') markdown_content)
    (js_then (Prism_highlightElement (ascii ''markdownContent''))
    (js_then (showResult (ascii ''markdownResult''))
    (js_then (updateStatus pf (ascii ''pdf'') success)
             (toggleButton (ascii ''extractBtn'') True))))))"

definition uploadPDF_try :: "'n platform \<Rightarrow> jsstring \<Rightarrow> 'n response \<Rightarrow> ('n, unit) js" where
  "uploadPDF_try pf file response =
     js_bind (fetchJson (ascii ''/api/upload_pdf'') (FormData file) response) (\<lambda>result.
     js_bind (js_pure (getProp pf (Some result) (ascii ''success''))) (\<lambda>ok.
     if isTruthy pf ok then uploadPDF_success pf result
     else businessFailure pf (ascii ''pdf'') lit_conversion_failed result))"

definition uploadPDF :: "'n platform \<Rightarrow> 'n response \<Rightarrow> ('n, unit) js" where
  "uploadPDF pf response =
     js_bind (readElement pf (ascii ''pdfFile'') (ascii ''files'') files) (\<lambda>selected.
     case selected of
       [] \<Rightarrow> alert lit_choose_pdf
     | file # others \<Rightarrow>
         js_then (updateStatus pf (ascii ''pdf'') processing)
        (js_then (showLoading pf lit_pdf_upload)
        (tryCatchFinally
           (uploadPDF_try pf file response)
           (\<lambda>e. reportFailure pf (ascii ''pdf'') lit_upload_failed (message e))
           (hideLoading pf lit_pdf_upload))))"

subsection \<open>\<^verbatim>\<open>extractContent\<close>, lines 103 to 143\<close>

definition lit_upload_first :: jsstring where \<comment> \<open>"please upload and convert a PDF file first"\<close>
  "lit_upload_first = [0x8BF7, 0x5148, 0x4E0A, 0x4F20, 0x5E76, 0x8F6C, 0x6362, 0x50, 0x44, 0x46, 0x6587, 0x4EF6]"

definition lit_content_extraction :: jsstring where \<comment> \<open>"content extraction"\<close>
  "lit_content_extraction = [0x5185, 0x5BB9, 0x63D0, 0x53D6]"

definition lit_extraction_failed :: jsstring where \<comment> \<open>"extraction failed"\<close>
  "lit_extraction_failed = [0x63D0, 0x53D6, 0x5931, 0x8D25]"

definition extractContent_success :: "'n platform \<Rightarrow> 'n json \<Rightarrow> ('n, unit) js" where
  "extractContent_success pf result =
     js_bind (js_pure (getProp pf (Some result) (ascii ''extracted_info''))) (\<lambda>extracted_info.
     js_then (js_modify (\<lambda>s. s\<lparr>currentExtractedInfo := extracted_info\<rparr>))
    (js_then (displayExtractionResults pf extracted_info)
    (js_then (showResult (ascii ''extractionResult''))
    (js_then (updateStatus pf (ascii ''extract'') success)
             (toggleButton (ascii ''generateBtn'') True)))))"

definition extractContent_try :: "'n platform \<Rightarrow> 'n response \<Rightarrow> ('n, unit) js" where
  "extractContent_try pf response s =
     js_bind
       (fetchJson (ascii ''/api/extract_content'')
          (JsonBody (JSON_stringify pf
             (objectLiteral [(ascii ''markdown_content'', currentMarkdownContent s)])))
          response) (\<lambda>result.
     js_bind (js_pure (getProp pf (Some result) (ascii ''success''))) (\<lambda>ok.
     if isTruthy pf ok then extractContent_success pf result
     else businessFailure pf (ascii ''extract'') lit_extraction_failed result)) s"

definition extractContent :: "'n platform \<Rightarrow> 'n response \<Rightarrow> ('n, unit) js" where
  "extractContent pf response s =
     (if \<not> isTruthy pf (currentMarkdownContent s) then alert lit_upload_first s
      else
        js_then (updateStatus pf (ascii ''extract'') processing)
       (js_then (showLoading pf lit_content_extraction)
       (tryCatchFinally
          (extractContent_try pf response)
          (\<lambda>e. reportFailure pf (ascii ''extract'') lit_extraction_failed (message e))
          (hideLoading pf lit_content_extraction))) s)"

subsection \<open>\<^verbatim>\<open>generateFactor\<close>, lines 221 to 264\<close>

definition lit_extract_first :: jsstring where \<comment> \<open>"please extract the paper content first"\<close>
  "lit_extract_first = [0x8BF7, 0x5148, 0x63D0, 0x53D6, 0x8BBA, 0x6587, 0x5185, 0x5BB9]"

definition lit_factor_generation :: jsstring where \<comment> \<open>"factor generation"\<close>
  "lit_factor_generation = [0x56E0, 0x5B50, 0x751F, 0x6210]"

definition lit_generation_failed :: jsstring where \<comment> \<open>"generation failed"\<close>
  "lit_generation_failed = [0x751F, 0x6210, 0x5931, 0x8D25]"

text \<open>\<^verbatim>\<open>Object.keys(value).length\<close> of a value that is neither \<^verbatim>\<open>null\<close> nor \<^verbatim>\<open>undefined\<close>.\<close>

fun ownKeyCount :: "'n json option \<Rightarrow> nat" where
  "ownKeyCount (Some (JObj kvs)) = length kvs"
| "ownKeyCount (Some (JArr xs)) = length xs"
| "ownKeyCount (Some (JStr s)) = length s"
| "ownKeyCount _ = 0"

definition generateFactor_success :: "'n platform \<Rightarrow> 'n json \<Rightarrow> ('n, unit) js" where
  "generateFactor_success pf result =
     js_bind (js_pure (getProp pf (Some result) (ascii ''factor_code''))) (\<lambda>factor_code.
     js_then (js_modify (\<lambda>s. s\<lparr>currentFactorCode := factor_code\<rparr>))
    (js_then (setTextContent pf (ascii ''factorCode'') factor_code)
    (js_then (Prism_highlightElement (ascii ''factorCode''))
    (js_then (showResult (ascii ''factorResult''))
    (js_then (updateStatus pf (ascii ''factor'') success)
    (js_then (toggleButton (ascii ''editBtn'') True)
    (js_then (toggleButton (ascii ''backtestBtn'') True)
             (toggleInputs [ascii ''datasetSelect'', ascii ''startDate'', ascii ''endDate''] True))))))))"

definition generateFactor_try :: "'n platform \<Rightarrow> 'n response \<Rightarrow> ('n, unit) js" where
  "generateFactor_try pf response s =
     js_bind
       (fetchJson (ascii ''/api/generate_factor'')
          (JsonBody (JSON_stringify pf
             (objectLiteral [(ascii ''extracted_info'', currentExtractedInfo s)])))
          response) (\<lambda>result.
     js_bind (js_pure (getProp pf (Some result) (ascii ''success''))) (\<lambda>ok.
     if isTruthy pf ok then generateFactor_success pf result
     else businessFailure pf (ascii ''factor'') lit_generation_failed result)) s"

definition generateFactor :: "'n platform \<Rightarrow> 'n response \<Rightarrow> ('n, unit) js" where
  "generateFactor pf response s =
     (if \<not> isTruthy pf (currentExtractedInfo s) \<or> ownKeyCount (currentExtractedInfo s) = 0
      then alert lit_extract_first s
      else
        js_then (updateStatus pf (ascii ''factor'') processing)
       (js_then (showLoading pf lit_factor_generation)
       (tryCatchFinally
          (generateFactor_try pf response)
          (\<lambda>e. reportFailure pf (ascii ''factor'') lit_generation_failed (message e))
          (hideLoading pf lit_factor_generation))) s)"

subsection \<open>\<^verbatim>\<open>runBacktest\<close>, lines 304 to 352\<close>

definition lit_generate_first :: jsstring where \<comment> \<open>"please generate the factor code first"\<close>
  "lit_generate_first = [0x8BF7, 0x5148, 0x751F, 0x6210, 0x56E0, 0x5B50, 0x4EE3, 0x7801]"

definition lit_choose_dataset :: jsstring where \<comment> \<open>"please choose a dataset"\<close>
  "lit_choose_dataset = [0x8BF7, 0x9009, 0x62E9, 0x6570, 0x636E, 0x96C6]"

definition lit_backtest_analysis :: jsstring where \<comment> \<open>"backtest analysis"\<close>
  "lit_backtest_analysis = [0x56DE, 0x6D4B, 0x5206, 0x6790]"

definition lit_backtest_failed :: jsstring where \<comment> \<open>"backtest failed"\<close>
  "lit_backtest_failed = [0x56DE, 0x6D4B, 0x5931, 0x8D25]"

definition runBacktest_success :: "'n platform \<Rightarrow> 'n json \<Rightarrow> ('n, unit) js" where
  "runBacktest_success pf result =
     js_bind (js_pure (getProp pf (Some result) (ascii ''results''))) (\<lambda>results.
     js_then (displayBacktestResults pf results)
    (js_then (showResult (ascii ''backtestResult''))
             (updateStatus pf (ascii ''backtest'') success)))"

definition runBacktest_try ::
  "'n platform \<Rightarrow> jsstring \<Rightarrow> jsstring \<Rightarrow> jsstring \<Rightarrow> 'n response \<Rightarrow> ('n, unit) js" where
  "runBacktest_try pf dataset startDate endDate response s =
     js_bind
       (fetchJson (ascii ''/api/run_backtest'')
          (JsonBody (JSON_stringify pf
             (objectLiteral
                [(ascii ''factor_code'', currentFactorCode s),
                 (ascii ''dataset'', Some (JStr dataset)),
                 (ascii ''start_date'', Some (JStr startDate)),
                 (ascii ''end_date'', Some (JStr endDate))])))
          response) (\<lambda>result.
     js_bind (js_pure (getProp pf (Some result) (ascii ''success''))) (\<lambda>ok.
     if isTruthy pf ok then runBacktest_success pf result
     else businessFailure pf (ascii ''backtest'') lit_backtest_failed result)) s"

definition runBacktest :: "'n platform \<Rightarrow> 'n response \<Rightarrow> ('n, unit) js" where
  "runBacktest pf response s =
     (if \<not> isTruthy pf (currentFactorCode s) then alert lit_generate_first s
      else
        js_bind (readElement pf (ascii ''datasetSelect'') (ascii ''value'') elementValue) (\<lambda>dataset.
        js_bind (readElement pf (ascii ''startDate'') (ascii ''value'') elementValue) (\<lambda>startDate.
        js_bind (readElement pf (ascii ''endDate'') (ascii ''value'') elementValue) (\<lambda>endDate.
        if dataset = [] then alert lit_choose_dataset
        else
          js_then (updateStatus pf (ascii ''backtest'') processing)
         (js_then (showLoading pf lit_backtest_analysis)
         (tryCatchFinally
            (runBacktest_try pf dataset startDate endDate response)
            (\<lambda>e. reportFailure pf (ascii ''backtest'') lit_backtest_failed (message e))
            (hideLoading pf lit_backtest_analysis)))))) s)"

section \<open>The vocabulary of the properties\<close>

text \<open>
  The definitions below are not functions of the script. They name what the properties
  speak of: what a statement leaves untouched, the shape the four workflow functions
  share, the conditions under which a function gets past its first check, and a small
  engine and page on which every property is exercised.
\<close>

subsection \<open>Frames\<close>

text \<open>
  A statement is silent when it leaves the event log, the loading elements and the set
  of ids of the document as they are; \<open>extends evs\<close> relates two pages of which the
  second has logged \<open>evs\<close> more and is otherwise framed the same way.
\<close>

definition sameFrame :: "'n page \<Rightarrow> 'n page \<Rightarrow> bool" where
  "sameFrame s s' \<longleftrightarrow>
     trace s' = trace s \<and> loadingElements s' = loadingElements s \<and>
     dom (elements s') = dom (elements s)"

definition silent :: "('n, 'a) js \<Rightarrow> bool" where
  "silent m \<longleftrightarrow> (\<forall>s. sameFrame s (snd (m s)))"

definition extends :: "event list \<Rightarrow> 'n page \<Rightarrow> 'n page \<Rightarrow> bool" where
  "extends evs s s' \<longleftrightarrow>
     trace s' = trace s @ evs \<and> loadingElements s' = loadingElements s \<and>
     dom (elements s') = dom (elements s)"

definition unfailing :: "('n, unit) js \<Rightarrow> bool" where
  "unfailing m \<longleftrightarrow> (\<forall>s. fst (m s) = Inr ())"

subsection \<open>The shape of a workflow function\<close>

text \<open>
  All four \<^verbatim>\<open>try\<close> blocks are one request, the test of \<^verbatim>\<open>result.success\<close>, a display part, the success badge
  and an unlocking part; all four functions wrap their block in the same badge, loading
  and \<^verbatim>\<open>try/catch/finally\<close> frame. The two combinators say so once; each function is proved equal to its
  instance.
\<close>

definition protocolTry ::
  "'n platform \<Rightarrow> jsstring \<Rightarrow> request_body \<Rightarrow> 'n response \<Rightarrow> jsstring \<Rightarrow> jsstring \<Rightarrow>
   ('n json \<Rightarrow> ('n, unit) js) \<Rightarrow> ('n, unit) js \<Rightarrow> ('n, unit) js" where
  "protocolTry pf url body response step caption pre tail =
     js_bind (fetchJson url body response) (\<lambda>result.
     js_bind (js_pure (getProp pf (Some result) (ascii ''success''))) (\<lambda>ok.
     if isTruthy pf ok then js_then (pre result) (js_then (updateStatus pf step success) tail)
     else businessFailure pf step caption result))"


text \<open>
  The flag of a response: true only when the body arrived, \<^verbatim>\<open>success\<close> could be read and
  is truthy. Its negation covers a rejected request, a body that is not JSON, a flag
  that is false or missing, and a body of which no property can be read.
\<close>

definition successFlag :: "'n platform \<Rightarrow> 'n response \<Rightarrow> bool" where
  "successFlag pf response =
     (case response of
        Body result \<Rightarrow>
          (case getProp pf (Some result) (ascii ''success'') of
             Inr ok \<Rightarrow> isTruthy pf ok
           | Inl e \<Rightarrow> False)
      | _ \<Rightarrow> False)"

subsection \<open>Loading elements\<close>

text \<open>
  The elements \<^verbatim>\<open>showLoading\<close> and \<^verbatim>\<open>hideLoading\<close> select, whether every loading element has a card
  header (so that neither loop throws), and the list after one of the loops.
\<close>

definition matching :: "jsstring \<Rightarrow> loading_element \<Rightarrow> bool" where
  "matching ctx el =
     (case cardHeader el of None \<Rightarrow> False | Some header \<Rightarrow> String_includes header (firstWord ctx))"

definition loadingReady :: "'n page \<Rightarrow> bool" where
  "loadingReady s = list_all (\<lambda>el. cardHeader el \<noteq> None) (loadingElements s)"

definition displayed :: "jsstring \<Rightarrow> jsstring \<Rightarrow> loading_element list \<Rightarrow> loading_element list" where
  "displayed shown ctx els =
     map (\<lambda>el. if matching ctx el then el\<lparr>loadingDisplay := shown\<rparr> else el) els"

subsection \<open>The parts of the four success branches\<close>

definition uploadPDF_display :: "'n platform \<Rightarrow> 'n json \<Rightarrow> ('n, unit) js" where
  "uploadPDF_display pf result =
     js_bind (js_pure (getProp pf (Some result) (ascii ''markdown_content''))) (\<lambda>markdown_content.
     js_then (js_modify (\<lambda>s. s\<lparr>currentMarkdownContent := markdown_content\<rparr>))
    (js_then (setTextContent pf (ascii ''markdownContent'') markdown_content)
    (js_then (Prism_highlightElement (ascii ''markdownContent''))
             (showResult (ascii ''markdownResult'')))))"

definition extractContent_display :: "'n platform \<Rightarrow> 'n json \<Rightarrow> ('n, unit) js" where
  "extractContent_display pf result =
     js_bind (js_pure (getProp pf (Some result) (ascii ''extracted_info''))) (\<lambda>extracted_info.
     js_then (js_modify (\<lambda>s. s\<lparr>currentExtractedInfo := extracted_info\<rparr>))
    (js_then (displayExtractionResults pf extracted_info)
             (showResult (ascii ''extractionResult''))))"

definition generateFactor_display :: "'n platform \<Rightarrow> 'n json \<Rightarrow> ('n, unit) js" where
  "generateFactor_display pf result =
     js_bind (js_pure (getProp pf (Some result) (ascii ''factor_code''))) (\<lambda>factor_code.
     js_then (js_modify (\<lambda>s. s\<lparr>currentFactorCode := factor_code\<rparr>))
    (js_then (setTextContent pf (ascii ''factorCode'') factor_code)
    (js_then (Prism_highlightElement (ascii ''factorCode''))
             (showResult (ascii ''factorResult'')))))"

definition generateFactor_unlock :: "('n, unit) js" where
  "generateFactor_unlock =
     js_then (toggleButton (ascii ''editBtn'') True)
    (js_then (toggleButton (ascii ''backtestBtn'') True)
             (toggleInputs [ascii ''datasetSelect'', ascii ''startDate'', ascii ''endDate''] True))"

definition runBacktest_display :: "'n platform \<Rightarrow> 'n json \<Rightarrow> ('n, unit) js" where
  "runBacktest_display pf result =
     js_bind (js_pure (getProp pf (Some result) (ascii ''results''))) (\<lambda>results.
     js_then (displayBacktestResults pf results) (showResult (ascii ''backtestResult'')))"

subsection \<open>Getting past the first check\<close>





subsection \<open>Pipeline state, runs, badges\<close>

definition pipeline :: "'n page \<Rightarrow> 'n json option \<times> 'n json option \<times> 'n json option" where
  "pipeline s = (currentMarkdownContent s, currentExtractedInfo s, currentFactorCode s)"

definition steady :: "('n, 'a) js \<Rightarrow> bool" where
  "steady m \<longleftrightarrow> (\<forall>s. pipeline (snd (m s)) = pipeline s)"


definition badgePresent :: "jsstring \<Rightarrow> 'n page \<Rightarrow> bool" where
  "badgePresent step s = (elements s (step @ ascii ''Status'') \<noteq> None)"


definition activeStatusClasses :: "element \<Rightarrow> jsstring list" where
  "activeStatusClasses el = filter (\<lambda>cls. cls \<in> set statusClassValues) (classList el)"

subsection \<open>Charts\<close>

fun ownProperty :: "'n json \<Rightarrow> jsstring \<Rightarrow> 'n json option" where
  "ownProperty (JObj kvs) key = map_of kvs key"
| "ownProperty v key = None"

definition chartInvariant :: "'n page \<Rightarrow> bool" where
  "chartInvariant s =
     (case charts s of
        [] \<Rightarrow> True
      | [entry] \<Rightarrow> backtestChart s = Some (fst entry)
      | _ \<Rightarrow> False)"

definition renderAll :: "'n platform \<Rightarrow> 'n json option list \<Rightarrow> 'n page \<Rightarrow> 'n page" where
  "renderAll pf inputs s = fold (\<lambda>data t. snd (drawReturnsChart pf data t)) inputs s"

definition destroyedFirst :: "'n page \<Rightarrow> chart_event list" where
  "destroyedFirst s = (case backtestChart s of None \<Rightarrow> [] | Some c \<Rightarrow> [ChartDestroyed c])"


subsection \<open>A sample engine and page\<close>

text \<open>
  An engine cut down to what the examples need: it parses the three texts used below as
  every engine does and rejects the rest. The page has the badges, inputs and canvas of
  the application; \<open>busyPage\<close> is the page once every step has run and a dataset is
  chosen.
\<close>

definition samplePlatform :: "int platform" where
  \<open>samplePlatform =
     \<lparr>JSON_parse = (\<lambda>text.
        if text = ascii ''[null]'' then Inr (JArr [JNull])
        else if text = ascii ''[{"name":"mom"}]''
          then Inr (JArr [JObj [(ascii ''name'', JStr (ascii ''mom''))]])
        else if text = ascii ''{"a":1}'' then Inr (JObj [(ascii ''a'', JNum 1)])
        else Inl (SyntaxError (ascii ''Unexpected token''))),
      JSON_stringify = (\<lambda>v. case v of JNum n \<Rightarrow> (if n = 1 then ascii ''1'' else ascii ''0'')
                                | _ \<Rightarrow> ascii ''null''),
      Number_toString = (\<lambda>n. if n = 1 then ascii ''1'' else ascii ''0''),
      Number_isFalsy = (\<lambda>n. n = 0),
      Number_multiply = (\<lambda>a b. a * b),
      Number_literal = int,
      Number_toFixed = (\<lambda>n digits. ascii ''0.0''),
      nullishReadMessage = (\<lambda>key. ascii ''Cannot read properties of null''),
      notPrimitiveMessage = ascii ''Cannot convert object to primitive value'',
      nullishObjectMessage = ascii ''Cannot convert undefined or null to object'',
      inheritedMemberText = (\<lambda>key. None)\<rparr>\<close>

definition blankElement :: element where
  "blankElement =
     \<lparr>classList = [], content = TextContent [], disabled = False, display = [],
      elementValue = [], files = []\<rparr>"

definition sampleDocument :: "jsstring \<Rightarrow> element option" where
  "sampleDocument =
     map_of
       [(ascii ''pdfFile'', blankElement\<lparr>files := [ascii ''paper.pdf'']\<rparr>),
        (ascii ''pdfStatus'', blankElement\<lparr>classList := [ascii ''badge'', ascii ''bg-secondary'']\<rparr>),
        (ascii ''extractStatus'', blankElement\<lparr>classList := [ascii ''badge'', ascii ''bg-secondary'']\<rparr>),
        (ascii ''factorStatus'', blankElement\<lparr>classList := [ascii ''badge'', ascii ''bg-secondary'']\<rparr>),
        (ascii ''backtestStatus'', blankElement\<lparr>classList := [ascii ''badge'', ascii ''bg-secondary'']\<rparr>),
        (ascii ''datasetSelect'', blankElement),
        (ascii ''startDate'', blankElement),
        (ascii ''endDate'', blankElement),
        (ascii ''returnsChart'', blankElement),
        (ascii ''datasetInfo'', blankElement),
        (ascii ''coreProblem'', blankElement),
        (ascii ''solution'', blankElement),
        (ascii ''keyFactors'', blankElement)]"

definition sampleLoading :: "loading_element list" where
  "sampleLoading =
     [\<lparr>cardHeader = Some (ascii ''1. '' @ lit_pdf_upload), loadingDisplay = ascii ''none''\<rparr>,
      \<lparr>cardHeader = Some (ascii ''2. '' @ lit_content_extraction), loadingDisplay = ascii ''none''\<rparr>,
      \<lparr>cardHeader = Some (ascii ''3. '' @ lit_factor_generation), loadingDisplay = ascii ''none''\<rparr>,
      \<lparr>cardHeader = Some (ascii ''4. '' @ lit_backtest_analysis), loadingDisplay = ascii ''none''\<rparr>]"

definition samplePage :: "int page" where
  "samplePage = initialPage sampleDocument sampleLoading"

definition busyPage :: "int page" where
  "busyPage =
     samplePage
       \<lparr>currentMarkdownContent := Some (JStr (ascii ''# Title'')),
        currentExtractedInfo := Some (JObj [(ascii ''core_problem'', JStr (ascii ''momentum''))]),
        currentFactorCode := Some (JStr (ascii ''def factor(df): return df'')),
        elements := sampleDocument(ascii ''datasetSelect'' \<mapsto> blankElement\<lparr>elementValue := ascii ''csi300''\<rparr>)\<rparr>"

definition quotaExceeded :: "int response" where
  "quotaExceeded =
     Body (JObj [(ascii ''success'', JBool False), (ascii ''error'', JStr (ascii ''quota exceeded''))])"

definition codedPage :: "int page" where
  "codedPage = samplePage\<lparr>currentFactorCode := Some (JStr (ascii ''def factor(df): return df''))\<rparr>"

subsection \<open>The key factors as the specification words them\<close>

text \<open>
  The four-way branch by the shape of the value alone: a sequence, a text (parsed), a
  mapping, anything else. The script tests truthiness first; the two are compared
  below.
\<close>

definition spec_keyFactorsView :: "'n platform \<Rightarrow> 'n json option \<Rightarrow> js_error + factors_view" where
  "spec_keyFactorsView pf key_factors =
     (case key_factors of
        Some (JArr xs) \<Rightarrow>
          bindE (mapE (factorFields pf) xs) (\<lambda>rs. Inr (FactorRecords SequenceBranch rs))
      | Some (JStr text) \<Rightarrow>
          (case JSON_parse pf text of
             Inr (JArr xs) \<Rightarrow>
               bindE (mapE (factorFields pf) xs) (\<lambda>rs. Inr (FactorRecords TextBranch rs))
           | Inr _ \<Rightarrow> Inr FormatError
           | Inl e \<Rightarrow> Inr (ParseFailure text))
      | Some (JObj kvs) \<Rightarrow> Inr (FactorRecords MappingBranch (map (entryFields pf) kvs))
      | _ \<Rightarrow> Inr NothingExtracted)"

text \<open>
  A factor whose three fields are absent or primitive: converting them to text cannot
  throw.
\<close>

fun isPrimitive :: "'n json option \<Rightarrow> bool" where
  "isPrimitive (Some (JArr xs)) = False"
| "isPrimitive (Some (JObj kvs)) = False"
| "isPrimitive v = True"

definition plainFactor :: "'n json \<Rightarrow> bool" where
  "plainFactor factor \<longleftrightarrow>
     factor \<noteq> JNull \<and>
     list_all (\<lambda>key. isPrimitive (ownProperty factor key))
       [ascii ''name'', ascii ''description'', ascii ''type'']"

text \<open>
  A field defaulted exactly when it is missing and kept as it is when present.
\<close>

definition spec_field :: "'n platform \<Rightarrow> 'n json \<Rightarrow> jsstring \<Rightarrow> jsstring \<Rightarrow> js_error + jsstring" where
  "spec_field pf factor key placeholder =
     bindE (getProp pf (Some factor) key)
       (\<lambda>v. case v of None \<Rightarrow> Inr placeholder | Some present \<Rightarrow> ToString pf present)"

definition spec_factorFields :: "'n platform \<Rightarrow> 'n json \<Rightarrow> js_error + factor_record" where
  "spec_factorFields pf factor =
     bindE (spec_field pf factor (ascii ''name'') lit_unknown_factor) (\<lambda>name.
     bindE (spec_field pf factor (ascii ''description'') lit_no_description) (\<lambda>description.
     bindE (spec_field pf factor (ascii ''type'') lit_uncategorized) (\<lambda>type.
     Inr \<lparr>factor_name = name, factor_description = description, factor_type = type\<rparr>)))"

definition momOnly :: "int json" where
  "momOnly = JObj [(ascii ''name'', JStr (ascii ''mom'')), (ascii ''type'', JNull)]"


definition nullFactors :: "int response" where
  "nullFactors =
     Body (JObj [(ascii ''success'', JBool True),
                 (ascii ''extracted_info'', JObj [(ascii ''key_factors'', JArr [JNull])])])"

section \<open>Properties\<close>

subsection \<open>Basic facts, and the sample page\<close>

lemma bindE_simps [simp]: "bindE (Inl e) f = Inl e" "bindE (Inr x) f = f x"
  by (simp_all add: bindE_def)

lemma getProp_own: "v \<noteq> JNull \<Longrightarrow> getProp pf (Some v) key = Inr (ownProperty v key)"
  by (cases v) simp_all


lemma quota_fails: "\<not> successFlag samplePlatform quotaExceeded"
  by (simp add: successFlag_def quotaExceeded_def ascii_def samplePlatform_def)

subsection \<open>The key factors\<close>

lemma typeof_distinct [simp]:
  "ascii ''string'' \<noteq> ascii ''object''" "ascii ''object'' \<noteq> ascii ''string''"
  "ascii ''undefined'' \<noteq> ascii ''string''" "ascii ''undefined'' \<noteq> ascii ''object''"
  "ascii ''boolean'' \<noteq> ascii ''string''" "ascii ''boolean'' \<noteq> ascii ''object''"
  "ascii ''number'' \<noteq> ascii ''string''" "ascii ''number'' \<noteq> ascii ''object''"
  by (simp_all add: ascii_def)

lemma keyFactorsView_sequence:
  "keyFactorsView pf (Some (JArr xs)) =
     bindE (mapE (factorFields pf) xs) (\<lambda>rs. Inr (FactorRecords SequenceBranch rs))"
  by (simp add: keyFactorsView_def)

lemma keyFactorsView_text:
  "keyFactorsView pf (Some (JStr s)) =
     (if s = [] then Inr NothingExtracted
      else case parsedFactorsView pf s of Inr view \<Rightarrow> Inr view | Inl e \<Rightarrow> Inr (ParseFailure s))"
  by (simp add: keyFactorsView_def split: sum.splits)

lemma keyFactorsView_mapping:
  "keyFactorsView pf (Some (JObj kvs)) = Inr (FactorRecords MappingBranch (map (entryFields pf) kvs))"
  by (simp add: keyFactorsView_def)

lemma keyFactorsView_other:
  "keyFactorsView pf None = Inr NothingExtracted"
  "keyFactorsView pf (Some JNull) = Inr NothingExtracted"
  "keyFactorsView pf (Some (JBool b)) = Inr NothingExtracted"
  "keyFactorsView pf (Some (JNum n)) = Inr NothingExtracted"
  by (simp_all add: keyFactorsView_def)

lemma markers_distinct:
  "renderFactorsView NothingExtracted \<noteq> renderFactorsView FormatError"
  "renderFactorsView NothingExtracted \<noteq> renderFactorsView (ParseFailure raw)"
  "renderFactorsView FormatError \<noteq> renderFactorsView (ParseFailure raw)"
  by (simp_all add: ascii_def lit_format_error_def lit_parse_failed_def lit_nothing_extracted_def)

lemma keyFactorsView_throws_sequence_only:
  "keyFactorsView pf key_factors = Inl e \<Longrightarrow> \<exists>xs. key_factors = Some (JArr xs)"
  by (cases key_factors rule: typeof.cases)
     (simp_all add: keyFactorsView_other keyFactorsView_text keyFactorsView_mapping
        split: if_splits sum.splits)

text \<open>
  Claim C1, as amended. The key factors are resolved by shape, after a test of
  truthiness: a sequence is mapped element by element (when no element makes the mapping
  throw); a non-empty text is parsed, a parsed sequence being mapped the same way, a
  parsed value of another shape giving the format-error marker and a failed parse the
  parse-failure marker around the raw text; the empty text, like \<^verbatim>\<open>undefined\<close>,
  \<^verbatim>\<open>null\<close>, a boolean and a number, gives the marker that nothing was extracted; a
  mapping gives one record per entry, in order, named by the key, described by the value
  if it is text and by its JSON serialization otherwise, of type "extracted factor". The
  three markers are different texts.
\<close>

theorem keyFactorsView_four_way:
  fixes pf :: "'n platform"
  shows
  "(\<forall>xs rs. mapE (factorFields pf) xs = Inr rs \<longrightarrow>
      keyFactorsView pf (Some (JArr xs)) = Inr (FactorRecords SequenceBranch rs)) \<and>
   (\<forall>input xs rs. input \<noteq> [] \<and> JSON_parse pf input = Inr (JArr xs) \<and>
        mapE (factorFields pf) xs = Inr rs \<longrightarrow>
      keyFactorsView pf (Some (JStr input)) = Inr (FactorRecords TextBranch rs)) \<and>
   (\<forall>input v. input \<noteq> [] \<and> JSON_parse pf input = Inr v \<and> \<not> Array_isArray (Some v) \<longrightarrow>
      keyFactorsView pf (Some (JStr input)) = Inr FormatError) \<and>
   (\<forall>input e. input \<noteq> [] \<and> JSON_parse pf input = Inl e \<longrightarrow>
      keyFactorsView pf (Some (JStr input)) = Inr (ParseFailure input)) \<and>
   keyFactorsView pf (Some (JStr [])) = Inr NothingExtracted \<and>
   (\<forall>kvs. keyFactorsView pf (Some (JObj kvs)) =
      Inr (FactorRecords MappingBranch (map (entryFields pf) kvs))) \<and>
   (\<forall>key input. entryFields pf (key, JStr input) =
      \<lparr>factor_name = key, factor_description = input, factor_type = lit_extracted_factor\<rparr>) \<and>
   (\<forall>key v. typeof (Some v) \<noteq> ascii ''string'' \<longrightarrow>
      entryFields pf (key, v) =
      \<lparr>factor_name = key, factor_description = JSON_stringify pf v,
       factor_type = lit_extracted_factor\<rparr>) \<and>
   keyFactorsView pf None = Inr NothingExtracted \<and>
   keyFactorsView pf (Some JNull) = Inr NothingExtracted \<and>
   (\<forall>b. keyFactorsView pf (Some (JBool b)) = Inr NothingExtracted) \<and>
   (\<forall>n. keyFactorsView pf (Some (JNum n)) = Inr NothingExtracted) \<and>
   renderFactorsView NothingExtracted \<noteq> renderFactorsView FormatError \<and>
   (\<forall>raw. renderFactorsView NothingExtracted \<noteq> renderFactorsView (ParseFailure raw)) \<and>
   (\<forall>raw. renderFactorsView FormatError \<noteq> renderFactorsView (ParseFailure raw)) \<and>
   (\<forall>raw. \<exists>before after. renderFactorsView (ParseFailure raw) = before @ raw @ after)"
proof (intro conjI allI impI)
  fix xs rs assume "mapE (factorFields pf) xs = Inr rs"
  then show "keyFactorsView pf (Some (JArr xs)) = Inr (FactorRecords SequenceBranch rs)"
    by (simp add: keyFactorsView_sequence)
next
  fix input xs rs
  assume "input \<noteq> [] \<and> JSON_parse pf input = Inr (JArr xs) \<and> mapE (factorFields pf) xs = Inr rs"
  then show "keyFactorsView pf (Some (JStr input)) = Inr (FactorRecords TextBranch rs)"
    by (simp add: keyFactorsView_text parsedFactorsView_def)
next
  fix input v
  assume "input \<noteq> [] \<and> JSON_parse pf input = Inr v \<and> \<not> Array_isArray (Some v)"
  then show "keyFactorsView pf (Some (JStr input)) = Inr FormatError"
    by (simp add: keyFactorsView_text parsedFactorsView_def)
next
  fix input e
  assume "input \<noteq> [] \<and> JSON_parse pf input = Inl e"
  then show "keyFactorsView pf (Some (JStr input)) = Inr (ParseFailure input)"
    by (simp add: keyFactorsView_text parsedFactorsView_def)
next
  fix key and v :: "'n json"
  assume "typeof (Some v) \<noteq> ascii ''string''"
  then show "entryFields pf (key, v) =
      \<lparr>factor_name = key, factor_description = JSON_stringify pf v,
       factor_type = lit_extracted_factor\<rparr>"
    by (simp add: entryFields_def)
next
  fix raw
  show "\<exists>before after. renderFactorsView (ParseFailure raw) = before @ raw @ after"
    by (rule exI[of _ "ascii ''<div class=\"alert alert-warning\">'' @ lit_parse_failed @ ascii '': ''"],
        rule exI[of _ "ascii ''</div>''"]) simp
next
  show "renderFactorsView NothingExtracted \<noteq> renderFactorsView FormatError"
    by (rule markers_distinct(1))
next
  fix raw
  show "renderFactorsView NothingExtracted \<noteq> renderFactorsView (ParseFailure raw)"
    by (rule markers_distinct(2))
next
  fix raw
  show "renderFactorsView FormatError \<noteq> renderFactorsView (ParseFailure raw)"
    by (rule markers_distinct(3))
qed (simp_all add: keyFactorsView_text keyFactorsView_mapping keyFactorsView_other entryFields_def)

text \<open>
  The branches on a sequence, two texts that parse, a text that does not, and an entry
  of a mapping.
\<close>

theorem keyFactorsView_four_way_witness:
  "keyFactorsView samplePlatform (Some (JArr [JObj [(ascii ''name'', JStr (ascii ''mom''))]])) =
     Inr (FactorRecords SequenceBranch
       [\<lparr>factor_name = ascii ''mom'', factor_description = lit_no_description,
         factor_type = lit_uncategorized\<rparr>]) \<and>
   keyFactorsView samplePlatform (Some (JStr (ascii ''[{\"name\":\"mom\"}]''))) =
     Inr (FactorRecords TextBranch
       [\<lparr>factor_name = ascii ''mom'', factor_description = lit_no_description,
         factor_type = lit_uncategorized\<rparr>]) \<and>
   keyFactorsView samplePlatform (Some (JStr (ascii ''{\"a\":1}''))) = Inr FormatError \<and>
   keyFactorsView samplePlatform (Some (JStr (ascii ''not json''))) =
     Inr (ParseFailure (ascii ''not json'')) \<and>
   entryFields samplePlatform (ascii ''a'', JNum 1) =
     \<lparr>factor_name = ascii ''a'', factor_description = ascii ''1'',
      factor_type = lit_extracted_factor\<rparr>"
proof -
  let ?mom = "\<lparr>factor_name = ascii ''mom'', factor_description = lit_no_description,
         factor_type = lit_uncategorized\<rparr>"
  have m: "mapE (factorFields samplePlatform) [JObj [(ascii ''name'', JStr (ascii ''mom''))]] =
      Inr [?mom]"
    by (simp add: factorFields_def orDefault_def ascii_def)
  have p1: "ascii ''[{\"name\":\"mom\"}]'' \<noteq> [] \<and>
      JSON_parse samplePlatform (ascii ''[{\"name\":\"mom\"}]'') =
        Inr (JArr [JObj [(ascii ''name'', JStr (ascii ''mom''))]])"
    by (simp add: samplePlatform_def ascii_def)
  have p2: "ascii ''{\"a\":1}'' \<noteq> [] \<and>
      JSON_parse samplePlatform (ascii ''{\"a\":1}'') = Inr (JObj [(ascii ''a'', JNum 1)]) \<and>
      \<not> Array_isArray (Some (JObj [(ascii ''a'', JNum (1::int))]))"
    by (simp add: samplePlatform_def ascii_def)
  have p3: "ascii ''not json'' \<noteq> [] \<and>
      JSON_parse samplePlatform (ascii ''not json'') = Inl (SyntaxError (ascii ''Unexpected token''))"
    by (simp add: samplePlatform_def ascii_def)
  have p4: "typeof (Some (JNum (1::int))) \<noteq> ascii ''string''" by simp
  have p5: "JSON_stringify samplePlatform (JNum 1) = ascii ''1''"
    by (simp add: samplePlatform_def)
  note t = keyFactorsView_four_way[of samplePlatform]
  from t m have 1: "keyFactorsView samplePlatform
      (Some (JArr [JObj [(ascii ''name'', JStr (ascii ''mom''))]])) =
      Inr (FactorRecords SequenceBranch [?mom])" by blast
  from t m p1 have 2: "keyFactorsView samplePlatform (Some (JStr (ascii ''[{\"name\":\"mom\"}]''))) =
      Inr (FactorRecords TextBranch [?mom])" by blast
  from t p2 have 3: "keyFactorsView samplePlatform (Some (JStr (ascii ''{\"a\":1}''))) = Inr FormatError"
    by blast
  from t p3 have 4: "keyFactorsView samplePlatform (Some (JStr (ascii ''not json''))) =
     Inr (ParseFailure (ascii ''not json''))" by blast
  from t p4 have "entryFields samplePlatform (ascii ''a'', JNum 1) =
     \<lparr>factor_name = ascii ''a'', factor_description = JSON_stringify samplePlatform (JNum 1),
      factor_type = lit_extracted_factor\<rparr>" by blast
  with p5 have 5: "entryFields samplePlatform (ascii ''a'', JNum 1) =
     \<lparr>factor_name = ascii ''a'', factor_description = ascii ''1'',
      factor_type = lit_extracted_factor\<rparr>" by simp
  from 1 2 3 4 5 show ?thesis by simp
qed

text \<open>
  The empty text is a text, yet it is never parsed: the script shows the marker that
  nothing was extracted where the four-way branch by shape gives the parse-failure
  marker.
\<close>

theorem empty_text_counterexample:
  "keyFactorsView samplePlatform (Some (JStr [])) = Inr NothingExtracted \<and>
   spec_keyFactorsView samplePlatform (Some (JStr [])) = Inr (ParseFailure []) \<and>
   renderFactorsView NothingExtracted \<noteq> renderFactorsView (ParseFailure [])"
  by (simp add: keyFactorsView_text spec_keyFactorsView_def samplePlatform_def ascii_def
      lit_parse_failed_def lit_nothing_extracted_def)

lemma bindE_Inr_iff: "bindE r f = Inr y \<longleftrightarrow> (\<exists>x. r = Inr x \<and> f x = Inr y)"
  by (cases r) simp_all

lemma mapE_Inr:
  "mapE f xs = Inr ys \<Longrightarrow> length ys = length xs \<and> (\<forall>i < length xs. f (xs ! i) = Inr (ys ! i))"
proof (induction xs arbitrary: ys)
  case Nil
  then show ?case by simp
next
  case (Cons x xs)
  from Cons.prems obtain y ys' where y: "f x = Inr y" and ys': "mapE f xs = Inr ys'" and eq: "ys = y # ys'"
    by (auto simp: bindE_Inr_iff)
  from Cons.IH[OF ys'] have ih: "length ys' = length xs" "\<forall>i < length xs. f (xs ! i) = Inr (ys' ! i)"
    by simp_all
  show ?case using y ih eq by (auto simp: nth_Cons split: nat.splits)
qed

lemma mapE_total:
  "(\<forall>x \<in> set xs. \<exists>y. f x = Inr y) \<Longrightarrow> \<exists>ys. mapE f xs = Inr ys"
  by (induction xs) auto

lemma orDefault_primitive:
  "isPrimitive v \<Longrightarrow> \<exists>s. orDefault pf v d = Inr s"
  by (cases v rule: isPrimitive.cases) (simp_all add: orDefault_def)

lemma factorFields_plain:
  assumes "plainFactor factor"
  shows "\<exists>r. factorFields pf factor = Inr r"
proof -
  from assms have nn: "factor \<noteq> JNull"
    and p: "isPrimitive (ownProperty factor (ascii ''name''))"
      "isPrimitive (ownProperty factor (ascii ''description''))"
      "isPrimitive (ownProperty factor (ascii ''type''))"
    by (simp_all add: plainFactor_def)
  from p obtain a b c where
    "orDefault pf (ownProperty factor (ascii ''name'')) lit_unknown_factor = Inr a"
    "orDefault pf (ownProperty factor (ascii ''description'')) lit_no_description = Inr b"
    "orDefault pf (ownProperty factor (ascii ''type'')) lit_uncategorized = Inr c"
    using orDefault_primitive[OF p(1), of pf lit_unknown_factor]
      orDefault_primitive[OF p(2), of pf lit_no_description]
      orDefault_primitive[OF p(3), of pf lit_uncategorized] by auto
  then show ?thesis
    by (simp add: factorFields_def getProp_own[OF nn])
qed

lemma factorFields_Inr:
  assumes "factorFields pf factor = Inr r"
  shows "\<exists>n d t.
     getProp pf (Some factor) (ascii ''name'') = Inr n \<and>
     getProp pf (Some factor) (ascii ''description'') = Inr d \<and>
     getProp pf (Some factor) (ascii ''type'') = Inr t \<and>
     orDefault pf n lit_unknown_factor = Inr (factor_name r) \<and>
     orDefault pf d lit_no_description = Inr (factor_description r) \<and>
     orDefault pf t lit_uncategorized = Inr (factor_type r)"
  using assms by (auto simp: factorFields_def bindE_Inr_iff)

lemma orDefault_cases:
  "orDefault pf v d = Inr s \<Longrightarrow>
     (if isTruthy pf v then toText pf v = Inr s else s = d)"
  by (auto simp: orDefault_def)

text \<open>
  Claim C2, as amended. For a sequence of factors whose fields are absent or primitive
  the records are produced, one per element; and whenever they are produced, each field
  of each record is the placeholder when the field of the element is falsy (missing,
  \<^verbatim>\<open>null\<close>, \<^verbatim>\<open>false\<close>, zero or the empty text) and the field itself, as text,
  otherwise.
\<close>

theorem factorFields_defaults:
  "((\<forall>x \<in> set xs. plainFactor x) \<longrightarrow>
      (\<exists>rs. keyFactorsView pf (Some (JArr xs)) = Inr (FactorRecords SequenceBranch rs))) \<and>
   (\<forall>rs b i. keyFactorsView pf (Some (JArr xs)) = Inr (FactorRecords b rs) \<and> i < length xs \<longrightarrow>
      length rs = length xs \<and>
      (\<exists>n d t.
         getProp pf (Some (xs ! i)) (ascii ''name'') = Inr n \<and>
         getProp pf (Some (xs ! i)) (ascii ''description'') = Inr d \<and>
         getProp pf (Some (xs ! i)) (ascii ''type'') = Inr t \<and>
         (if isTruthy pf n then toText pf n = Inr (factor_name (rs ! i))
          else factor_name (rs ! i) = lit_unknown_factor) \<and>
         (if isTruthy pf d then toText pf d = Inr (factor_description (rs ! i))
          else factor_description (rs ! i) = lit_no_description) \<and>
         (if isTruthy pf t then toText pf t = Inr (factor_type (rs ! i))
          else factor_type (rs ! i) = lit_uncategorized)))"
proof (intro conjI impI allI)
  assume "\<forall>x \<in> set xs. plainFactor x"
  then have "\<forall>x \<in> set xs. \<exists>r. factorFields pf x = Inr r"
    using factorFields_plain by blast
  then obtain rs where "mapE (factorFields pf) xs = Inr rs"
    using mapE_total by blast
  then show "\<exists>rs. keyFactorsView pf (Some (JArr xs)) = Inr (FactorRecords SequenceBranch rs)"
    by (simp add: keyFactorsView_sequence)
next
  fix rs b i
  assume a: "keyFactorsView pf (Some (JArr xs)) = Inr (FactorRecords b rs) \<and> i < length xs"
  then have m: "mapE (factorFields pf) xs = Inr rs"
    by (auto simp: keyFactorsView_sequence bindE_Inr_iff)
  from mapE_Inr[OF m] a have len: "length rs = length xs"
    and fi: "factorFields pf (xs ! i) = Inr (rs ! i)" by simp_all
  show "length rs = length xs" by (rule len)
  from factorFields_Inr[OF fi] obtain n d t where
    g: "getProp pf (Some (xs ! i)) (ascii ''name'') = Inr n"
       "getProp pf (Some (xs ! i)) (ascii ''description'') = Inr d"
       "getProp pf (Some (xs ! i)) (ascii ''type'') = Inr t"
    and o: "orDefault pf n lit_unknown_factor = Inr (factor_name (rs ! i))"
       "orDefault pf d lit_no_description = Inr (factor_description (rs ! i))"
       "orDefault pf t lit_uncategorized = Inr (factor_type (rs ! i))"
    by blast
  show "\<exists>n d t.
         getProp pf (Some (xs ! i)) (ascii ''name'') = Inr n \<and>
         getProp pf (Some (xs ! i)) (ascii ''description'') = Inr d \<and>
         getProp pf (Some (xs ! i)) (ascii ''type'') = Inr t \<and>
         (if isTruthy pf n then toText pf n = Inr (factor_name (rs ! i))
          else factor_name (rs ! i) = lit_unknown_factor) \<and>
         (if isTruthy pf d then toText pf d = Inr (factor_description (rs ! i))
          else factor_description (rs ! i) = lit_no_description) \<and>
         (if isTruthy pf t then toText pf t = Inr (factor_type (rs ! i))
          else factor_type (rs ! i) = lit_uncategorized)"
    using g orDefault_cases[OF o(1)] orDefault_cases[OF o(2)] orDefault_cases[OF o(3)]
    by blast
qed

theorem factorFields_defaults_witness:
  "keyFactorsView samplePlatform (Some (JArr [momOnly])) =
     Inr (FactorRecords SequenceBranch
       [\<lparr>factor_name = ascii ''mom'', factor_description = lit_no_description,
         factor_type = lit_uncategorized\<rparr>]) \<and>
   (\<exists>n d t.
      getProp samplePlatform (Some ([momOnly] ! 0)) (ascii ''name'') = Inr n \<and>
      getProp samplePlatform (Some ([momOnly] ! 0)) (ascii ''description'') = Inr d \<and>
      getProp samplePlatform (Some ([momOnly] ! 0)) (ascii ''type'') = Inr t \<and>
      n = Some (JStr (ascii ''mom'')) \<and> d = None \<and> t = Some JNull)"
proof -
  have k: "keyFactorsView samplePlatform (Some (JArr [momOnly])) =
     Inr (FactorRecords SequenceBranch
       [\<lparr>factor_name = ascii ''mom'', factor_description = lit_no_description,
         factor_type = lit_uncategorized\<rparr>])"
    by (simp add: keyFactorsView_sequence factorFields_def orDefault_def momOnly_def ascii_def)
  have "plainFactor momOnly"
    by (simp add: plainFactor_def momOnly_def ascii_def)
  with factorFields_defaults[of "[momOnly]" samplePlatform] k
  have "\<exists>n d t.
         getProp samplePlatform (Some ([momOnly] ! 0)) (ascii ''name'') = Inr n \<and>
         getProp samplePlatform (Some ([momOnly] ! 0)) (ascii ''description'') = Inr d \<and>
         getProp samplePlatform (Some ([momOnly] ! 0)) (ascii ''type'') = Inr t"
    by fastforce
  then show ?thesis using k by (simp add: momOnly_def ascii_def)
qed

text \<open>
  A name that is present and empty is replaced by the placeholder, where a default for
  missing fields only would keep it.
\<close>

theorem empty_name_counterexample:
  "factorFields samplePlatform (JObj [(ascii ''name'', JStr [])]) =
     Inr \<lparr>factor_name = lit_unknown_factor, factor_description = lit_no_description,
          factor_type = lit_uncategorized\<rparr> \<and>
   spec_factorFields samplePlatform (JObj [(ascii ''name'', JStr [])]) =
     Inr \<lparr>factor_name = [], factor_description = lit_no_description,
          factor_type = lit_uncategorized\<rparr> \<and>
   lit_unknown_factor \<noteq> []"
  by (simp add: factorFields_def spec_factorFields_def spec_field_def orDefault_def ascii_def
      lit_unknown_factor_def)

text \<open>
  Claim C3 fails on the script: a sequence that holds \<^verbatim>\<open>null\<close> makes the mapping read a
  property of \<^verbatim>\<open>null\<close>, and nothing catches the TypeError before it leaves
  \<^verbatim>\<open>displayExtractionResults\<close>. The same data sent as text is caught by the \<^verbatim>\<open>try\<close> around
  \<^verbatim>\<open>JSON.parse\<close> and shown as a parse failure.
\<close>

theorem null_element_throws:
  "keyFactorsView pf (Some (JArr [JNull])) = Inl (TypeError (nullishReadMessage pf (ascii ''name''))) \<and>
   factorsHtml pf (Some (JArr [JNull])) = Inl (TypeError (nullishReadMessage pf (ascii ''name''))) \<and>
   (JSON_parse pf (ascii ''[null]'') = Inr (JArr [JNull]) \<longrightarrow>
      keyFactorsView pf (Some (JStr (ascii ''[null]''))) = Inr (ParseFailure (ascii ''[null]'')))"
  by (simp add: factorsHtml_def keyFactorsView_sequence keyFactorsView_text factorFields_def
      parsedFactorsView_def ascii_def)

theorem null_element_throws_witness:
  "keyFactorsView samplePlatform (Some (JArr [JNull])) =
     Inl (TypeError (ascii ''Cannot read properties of null'')) \<and>
   keyFactorsView samplePlatform (Some (JStr (ascii ''[null]''))) =
     Inr (ParseFailure (ascii ''[null]''))"
proof -
  have p: "JSON_parse samplePlatform (ascii ''[null]'') = Inr (JArr [JNull])"
    by (simp add: samplePlatform_def)
  have m: "nullishReadMessage samplePlatform (ascii ''name'') = ascii ''Cannot read properties of null''"
    by (simp add: samplePlatform_def)
  from null_element_throws[of samplePlatform] p m show ?thesis by simp
qed

text \<open>
  What the throw does to the page: \<^verbatim>\<open>extractContent\<close> reports a failed extraction and
  sets the error badge although the response announced success, after the extracted
  record has been stored.
\<close>

lemma displayExtractionResults_null_factor:
  "fst (displayExtractionResults samplePlatform
          (Some (JObj [(ascii ''key_factors'', JArr [JNull])])) busyPage) =
     Inl (TypeError (ascii ''Cannot read properties of null''))"
  by (simp add: displayExtractionResults_def js_bind_def js_then_def js_pure_def datasetHtml_def
      captionLine_def orDefault_def coreProblemHtml_def solutionHtml_def setInnerHTML_def
      writeElement_def factorsHtml_def keyFactorsView_sequence factorFields_def
      busyPage_def samplePage_def initialPage_def sampleDocument_def ascii_def samplePlatform_def
      blankElement_def)

lemma extractContent_null_factor:
  "fst (extractContent samplePlatform nullFactors busyPage) = Inr () \<and>
   last (trace (snd (extractContent samplePlatform nullFactors busyPage))) =
     StatusSet (ascii ''extract'') error \<and>
   alerts (snd (extractContent samplePlatform nullFactors busyPage)) =
     [lit_extraction_failed @ ascii '': '' @ ascii ''Cannot read properties of null''] \<and>
   currentExtractedInfo (snd (extractContent samplePlatform nullFactors busyPage)) =
     Some (JObj [(ascii ''key_factors'', JArr [JNull])])"
  by (simp add: extractContent_def extractContent_try_def extractContent_success_def
      tryCatchFinally_def fetchJson_def reportFailure_def alert_def updateStatus_def
      showLoading_def hideLoading_def String_includes.simps firstWord_def
      displayExtractionResults_def js_bind_def js_then_def js_pure_def js_modify_def datasetHtml_def
      captionLine_def orDefault_def coreProblemHtml_def solutionHtml_def setInnerHTML_def
      writeElement_def factorsHtml_def keyFactorsView_sequence factorFields_def
      nullFactors_def busyPage_def samplePage_def initialPage_def sampleDocument_def sampleLoading_def
      ascii_def samplePlatform_def blankElement_def lit_content_extraction_def lit_pdf_upload_def
      lit_factor_generation_def lit_backtest_analysis_def)

subsection \<open>Framing lemmas\<close>

lemma sameFrame_refl [simp]: "sameFrame s s"
  by (simp add: sameFrame_def)

lemma sameFrame_trans: "sameFrame s t \<Longrightarrow> sameFrame t u \<Longrightarrow> sameFrame s u"
  by (simp add: sameFrame_def)

lemma silent_return [simp]: "silent (js_return x)"
  by (simp add: silent_def js_return_def)

lemma silent_pure [simp]: "silent (js_pure r)"
  by (simp add: silent_def js_pure_def)

lemma silent_bind: "silent m \<Longrightarrow> (\<And>x. silent (f x)) \<Longrightarrow> silent (js_bind m f)"
  unfolding silent_def js_bind_def
proof (intro allI)
  fix s
  assume m: "\<forall>s. sameFrame s (snd (m s))" and f: "\<And>x. \<forall>s. sameFrame s (snd (f x s))"
  obtain r s1 where ms: "m s = (r, s1)" by (cases "m s")
  from m have 1: "sameFrame s s1" using ms by (metis snd_conv)
  show "sameFrame s (snd (case m s of (Inl e, s') \<Rightarrow> (Inl e, s') | (Inr x, s') \<Rightarrow> f x s'))"
  proof (cases r)
    case (Inl e)
    then show ?thesis using ms 1 by simp
  next
    case (Inr x)
    from f[of x] have "sameFrame s1 (snd (f x s1))" by blast
    then show ?thesis using ms Inr 1 sameFrame_trans by auto
  qed
qed

lemma silent_then: "silent m \<Longrightarrow> silent n \<Longrightarrow> silent (js_then m n)"
  by (simp add: js_then_def silent_bind)

lemma silent_writeElement [simp]: "silent (writeElement pf ident property change)"
  by (auto simp: silent_def writeElement_def sameFrame_def split: option.splits)

lemma silent_writeElementIfPresent [simp]: "silent (writeElementIfPresent ident change)"
  by (auto simp: silent_def writeElementIfPresent_def sameFrame_def split: option.splits)

lemma silent_readElement [simp]: "silent (readElement pf ident property read)"
  by (auto simp: silent_def readElement_def sameFrame_def split: option.splits)

lemma silent_setTextContent [simp]: "silent (setTextContent pf ident v)"
  by (auto simp: silent_def setTextContent_def sameFrame_def split: option.splits sum.splits)

lemma silent_toggleButton [simp]: "silent (toggleButton b e)"
  by (simp add: toggleButton_def)

lemma silent_toggleInputs [simp]: "silent (toggleInputs ids e)"
  by (induction ids) (simp_all add: silent_then)

lemma silent_showResult [simp]: "silent (showResult r)"
  by (simp add: showResult_def)

lemma silent_setInnerHTML [simp]: "silent (setInnerHTML pf ident html)"
  by (simp add: setInnerHTML_def)

lemma silent_Prism [simp]: "silent (Prism_highlightElement ident)"
  by (simp add: Prism_highlightElement_def)

lemma silent_alert [simp]: "silent (alert text)"
  by (simp add: alert_def silent_def js_modify_def sameFrame_def)

lemma silent_displayExtractionResults [simp]: "silent (displayExtractionResults pf info)"
  by (simp add: displayExtractionResults_def silent_bind silent_then)

lemma silent_Chart_destroy [simp]: "silent (Chart_destroy c)"
  by (simp add: silent_def sameFrame_def Chart_destroy_def js_modify_def)

lemma silent_Chart_new [simp]: "silent (Chart_new config)"
  by (simp add: silent_def sameFrame_def Chart_new_def)

lemma silent_destroy_previous [simp]:
  "silent (\<lambda>s. case backtestChart s of None \<Rightarrow> js_return () s | Some c \<Rightarrow> Chart_destroy c s)"
  by (simp add: silent_def sameFrame_def Chart_destroy_def js_modify_def js_return_def split: option.splits)

lemma silent_set_backtestChart [simp]: "silent (js_modify (\<lambda>s. s\<lparr>backtestChart := c\<rparr>))"
  by (simp add: silent_def sameFrame_def js_modify_def)

lemma silent_drawReturnsChart [simp]: "silent (drawReturnsChart pf data)"
  by (simp add: drawReturnsChart_def silent_bind silent_then)

lemma silent_displayBacktestResults [simp]: "silent (displayBacktestResults pf results)"
  by (simp add: displayBacktestResults_def silent_bind silent_then)



lemma extends_refl [simp]: "extends [] s s"
  by (simp add: extends_def)


subsection \<open>The status badge\<close>

lemma updateStatus_absent:
  "elements s (step @ ascii ''Status'') = None \<Longrightarrow>
   updateStatus pf step st s = (Inl (TypeError (nullishReadMessage pf (ascii ''classList''))), s)"
  by (simp add: updateStatus_def js_then_def js_bind_def writeElement_def)

lemma updateStatus_present:
  "elements s (step @ ascii ''Status'') = Some el \<Longrightarrow>
   updateStatus pf step st s =
     (Inr (),
      s\<lparr>elements := (elements s)(step @ ascii ''Status'' \<mapsto>
           el\<lparr>classList :=
                 classList_add (statusClasses st)
                   (fold classList_remove statusClassValues (classList el)),
               content := TextContent (statusTexts st)\<rparr>),
        trace := trace s @ [StatusSet step st]\<rparr>)"
  by (simp add: updateStatus_def js_then_def js_bind_def writeElement_def js_modify_def)

lemma updateStatus_extends:
  assumes "elements s (step @ ascii ''Status'') \<noteq> None"
  shows "\<exists>s'. updateStatus pf step st s = (Inr (), s') \<and> extends [StatusSet step st] s s' \<and>
           alerts s' = alerts s \<and>
           currentMarkdownContent s' = currentMarkdownContent s \<and>
           currentExtractedInfo s' = currentExtractedInfo s \<and>
           currentFactorCode s' = currentFactorCode s"
proof -
  from assms obtain el where el: "elements s (step @ ascii ''Status'') = Some el" by blast
  show ?thesis
    unfolding updateStatus_present[OF el] using el by (auto simp: extends_def)
qed




subsection \<open>One run of the shared shape\<close>


lemma setLoadingDisplay_ready:
  "list_all (\<lambda>el. cardHeader el \<noteq> None) els \<Longrightarrow>
   setLoadingDisplay pf shown ctx els = (Inr (), displayed shown ctx els)"
  by (induction els) (auto simp: displayed_def matching_def)

lemma setLoadingDisplay_not_ready:
  "\<not> list_all (\<lambda>el. cardHeader el \<noteq> None) els \<Longrightarrow>
   \<exists>e els'. setLoadingDisplay pf shown ctx els = (Inl e, els')"
  by (induction els) (auto split: option.splits prod.splits)

lemma displayed_headers [simp]: "map cardHeader (displayed shown ctx els) = map cardHeader els"
  by (induction els) (simp_all add: displayed_def)

lemma displayed_ready [simp]:
  "list_all (\<lambda>el. cardHeader el \<noteq> None) (displayed shown ctx els) =
   list_all (\<lambda>el. cardHeader el \<noteq> None) els"
  by (induction els) (simp_all add: displayed_def)

lemma displayed_twice [simp]:
  "displayed a ctx (displayed b ctx els) = displayed a ctx els"
  by (induction els) (simp_all add: displayed_def matching_def)


lemma showLoading_ready:
  "loadingReady s \<Longrightarrow>
   showLoading pf ctx s =
     (Inr (), s\<lparr>loadingElements := displayed (ascii ''block'') ctx (loadingElements s)\<rparr>)"
  by (simp add: showLoading_def loadingReady_def setLoadingDisplay_ready)


lemma showLoading_not_ready:
  "\<not> loadingReady s \<Longrightarrow>
   \<exists>e els. showLoading pf ctx s = (Inl e, s\<lparr>loadingElements := els\<rparr>)"
  using setLoadingDisplay_not_ready[of "loadingElements s" pf "ascii ''block''" ctx]
  by (auto simp: showLoading_def loadingReady_def)

lemma loadingReady_extends: "extends evs s s' \<Longrightarrow> loadingReady s' = loadingReady s"
  by (simp add: extends_def loadingReady_def)


subsection \<open>The four functions are instances of the shape\<close>

lemma js_then_bind: "js_then (js_bind m f) n = js_bind m (\<lambda>x. js_then (f x) n)"
  by (auto simp: js_then_def js_bind_def fun_eq_iff split: prod.splits sum.splits)

lemma js_then_assoc: "js_then (js_then a b) c = js_then a (js_then b c)"
  by (auto simp: js_then_def js_bind_def fun_eq_iff split: prod.splits sum.splits)

lemma js_then_return: "js_then m (js_return ()) = m"
  by (auto simp: js_then_def js_bind_def js_return_def fun_eq_iff split: prod.splits sum.splits)

lemma uploadPDF_success_shape:
  "uploadPDF_success pf result =
     js_then (uploadPDF_display pf result)
       (js_then (updateStatus pf (ascii ''pdf'') success) (toggleButton (ascii ''extractBtn'') True))"
  by (simp add: uploadPDF_success_def uploadPDF_display_def js_then_bind js_then_assoc)

lemma extractContent_success_shape:
  "extractContent_success pf result =
     js_then (extractContent_display pf result)
       (js_then (updateStatus pf (ascii ''extract'') success) (toggleButton (ascii ''generateBtn'') True))"
  by (simp add: extractContent_success_def extractContent_display_def js_then_bind js_then_assoc)

lemma generateFactor_success_shape:
  "generateFactor_success pf result =
     js_then (generateFactor_display pf result)
       (js_then (updateStatus pf (ascii ''factor'') success) generateFactor_unlock)"
  by (simp add: generateFactor_success_def generateFactor_display_def generateFactor_unlock_def
      js_then_bind js_then_assoc)

lemma runBacktest_success_shape:
  "runBacktest_success pf result =
     js_then (runBacktest_display pf result)
       (js_then (updateStatus pf (ascii ''backtest'') success) (js_return ()))"
  by (simp add: runBacktest_success_def runBacktest_display_def js_then_bind js_then_assoc
      js_then_return)

lemma silent_assign [simp]:
  "silent (js_modify (\<lambda>s. s\<lparr>currentMarkdownContent := a\<rparr>))"
  "silent (js_modify (\<lambda>s. s\<lparr>currentExtractedInfo := a\<rparr>))"
  "silent (js_modify (\<lambda>s. s\<lparr>currentFactorCode := a\<rparr>))"
  by (simp_all add: silent_def sameFrame_def js_modify_def)

lemma silent_displays [simp]:
  "silent (uploadPDF_display pf result)"
  "silent (extractContent_display pf result)"
  "silent (generateFactor_display pf result)"
  "silent (runBacktest_display pf result)"
  "silent (generateFactor_unlock :: ('n, unit) js)"
  by (simp_all add: uploadPDF_display_def extractContent_display_def generateFactor_display_def
      runBacktest_display_def generateFactor_unlock_def silent_bind silent_then)

lemma unfailing_then: "unfailing m \<Longrightarrow> unfailing n \<Longrightarrow> unfailing (js_then m n)"
  by (auto simp: unfailing_def js_then_def js_bind_def split: prod.splits sum.splits)
     (metis fst_conv old.sum.distinct(1))

lemma unfailing_writeElementIfPresent [simp]: "unfailing (writeElementIfPresent ident change)"
  by (simp add: unfailing_def writeElementIfPresent_def split: option.splits)

lemma unfailing_return [simp]: "unfailing (js_return ())"
  by (simp add: unfailing_def js_return_def)

lemma unfailing_toggleButton [simp]: "unfailing (toggleButton b e)"
  by (simp add: toggleButton_def)

lemma unfailing_toggleInputs [simp]: "unfailing (toggleInputs ids e)"
  by (induction ids) (simp_all add: unfailing_then)

lemma unfailing_unlock [simp]: "unfailing (generateFactor_unlock :: ('n, unit) js)"
  by (simp add: generateFactor_unlock_def unfailing_then)

lemma uploadPDF_try_protocol:
  "uploadPDF_try pf file response =
     protocolTry pf (ascii ''/api/upload_pdf'') (FormData file) response (ascii ''pdf'')
       lit_conversion_failed (uploadPDF_display pf) (toggleButton (ascii ''extractBtn'') True)"
  by (simp add: uploadPDF_try_def protocolTry_def uploadPDF_success_shape cong: if_cong)

lemma extractContent_try_protocol:
  "extractContent_try pf response s =
     protocolTry pf (ascii ''/api/extract_content'')
       (JsonBody (JSON_stringify pf
          (objectLiteral [(ascii ''markdown_content'', currentMarkdownContent s)])))
       response (ascii ''extract'') lit_extraction_failed (extractContent_display pf)
       (toggleButton (ascii ''generateBtn'') True) s"
  by (simp add: extractContent_try_def protocolTry_def extractContent_success_shape cong: if_cong)

lemma generateFactor_try_protocol:
  "generateFactor_try pf response s =
     protocolTry pf (ascii ''/api/generate_factor'')
       (JsonBody (JSON_stringify pf
          (objectLiteral [(ascii ''extracted_info'', currentExtractedInfo s)])))
       response (ascii ''factor'') lit_generation_failed (generateFactor_display pf)
       generateFactor_unlock s"
  by (simp add: generateFactor_try_def protocolTry_def generateFactor_success_shape cong: if_cong)

lemma runBacktest_try_protocol:
  "runBacktest_try pf dataset startDate endDate response s =
     protocolTry pf (ascii ''/api/run_backtest'')
       (JsonBody (JSON_stringify pf
          (objectLiteral
             [(ascii ''factor_code'', currentFactorCode s),
              (ascii ''dataset'', Some (JStr dataset)),
              (ascii ''start_date'', Some (JStr startDate)),
              (ascii ''end_date'', Some (JStr endDate))])))
       response (ascii ''backtest'') lit_backtest_failed (runBacktest_display pf)
       (js_return ()) s"
  by (simp add: runBacktest_try_def protocolTry_def runBacktest_success_shape cong: if_cong)





subsection \<open>Statements that leave the pipeline state alone\<close>

lemma steadyD: "steady m \<Longrightarrow> m s = (r, s') \<Longrightarrow> pipeline s' = pipeline s"
  by (metis snd_conv steady_def)

lemma steady_bind: "steady m \<Longrightarrow> (\<And>x. steady (f x)) \<Longrightarrow> steady (js_bind m f)"
  unfolding steady_def js_bind_def
proof (intro allI)
  fix s
  assume m: "\<forall>s. pipeline (snd (m s)) = pipeline s" and f: "\<And>x. \<forall>s. pipeline (snd (f x s)) = pipeline s"
  obtain r s1 where ms: "m s = (r, s1)" by (cases "m s")
  from m ms have 1: "pipeline s1 = pipeline s" by (metis snd_conv)
  show "pipeline (snd (case m s of (Inl e, s') \<Rightarrow> (Inl e, s') | (Inr x, s') \<Rightarrow> f x s')) = pipeline s"
  proof (cases r)
    case (Inl e)
    then show ?thesis using ms 1 by simp
  next
    case (Inr x)
    from f[of x] have "pipeline (snd (f x s1)) = pipeline s1" by blast
    then show ?thesis using ms Inr 1 by simp
  qed
qed

lemma steady_then: "steady m \<Longrightarrow> steady n \<Longrightarrow> steady (js_then m n)"
  by (simp add: js_then_def steady_bind)

lemma steady_tryCatchFinally:
  assumes "steady body" "\<And>e. steady (handler e)" "steady finalizer"
  shows "steady (tryCatchFinally body handler finalizer)"
  unfolding steady_def
proof
  fix s
  obtain r1 s1 where b: "body s = (r1, s1)" by (cases "body s")
  obtain r2 s2 where h: "(case r1 of Inl e \<Rightarrow> handler e s1 | Inr x \<Rightarrow> (Inr x, s1)) = (r2, s2)"
    by (cases "case r1 of Inl e \<Rightarrow> handler e s1 | Inr x \<Rightarrow> (Inr x, s1)")
  obtain r3 s3 where f: "finalizer s2 = (r3, s3)" by (cases "finalizer s2")
  have 1: "pipeline s1 = pipeline s" by (rule steadyD[OF assms(1) b])
  have 2: "pipeline s2 = pipeline s1"
  proof (cases r1)
    case (Inl e)
    with h have "handler e s1 = (r2, s2)" by simp
    then show ?thesis by (rule steadyD[OF assms(2)])
  next
    case (Inr x)
    with h show ?thesis by simp
  qed
  have 3: "pipeline s3 = pipeline s2" by (rule steadyD[OF assms(3) f])
  have "snd (tryCatchFinally body handler finalizer s) = s3"
    by (cases r3) (simp_all add: tryCatchFinally_def b h f)
  then show "pipeline (snd (tryCatchFinally body handler finalizer s)) = pipeline s"
    using 1 2 3 by simp
qed

lemma steady_basic [simp]:
  "steady (js_return x)" "steady (js_pure r)" "steady (alert a)"
  "steady (readElement pf ident property read)"
  "steady (writeElement pf ident property change)"
  "steady (showLoading pf ctx)" "steady (hideLoading pf ctx)"
  by (auto simp: steady_def pipeline_def js_return_def js_pure_def alert_def js_modify_def
      readElement_def writeElement_def showLoading_def hideLoading_def
      split: option.splits prod.splits)

lemma steady_log [simp]: "steady (js_modify (\<lambda>s. s\<lparr>trace := f s\<rparr>))"
  by (simp add: steady_def pipeline_def js_modify_def)

lemma steady_updateStatus [simp]: "steady (updateStatus pf step st)"
  by (simp add: updateStatus_def steady_then)

lemma steady_reportFailure [simp]: "steady (reportFailure pf step caption a)"
  by (simp add: reportFailure_def steady_then)

lemma steady_businessFailure [simp]: "steady (businessFailure pf step caption result)"
  by (simp add: businessFailure_def steady_bind)

lemma steady_fetchJson [simp]: "steady (fetchJson url body response)"
  by (simp add: fetchJson_def steady_then)

lemma protocolTry_failure:
  fixes pf :: "'n platform"
  assumes "\<not> successFlag pf response"
  shows "protocolTry pf url body response step caption pre tail =
         js_bind (fetchJson url body response) (\<lambda>result.
         js_bind (js_pure (getProp pf (Some result) (ascii ''success''))) (\<lambda>ok.
         businessFailure pf step caption result))"
proof
  fix s :: "'n page"
  let ?s1 = "s\<lparr>trace := trace s @ [Fetch url body]\<rparr>"
  have fetch: "fetchJson url body response s =
      ((case response of FetchRejected e \<Rightarrow> Inl e | BodyRejected e \<Rightarrow> Inl e | Body result \<Rightarrow> Inr result), ?s1)"
    by (simp add: fetchJson_def js_then_def js_bind_def js_modify_def js_pure_def)
  show "protocolTry pf url body response step caption pre tail s =
         js_bind (fetchJson url body response) (\<lambda>result.
         js_bind (js_pure (getProp pf (Some result) (ascii ''success''))) (\<lambda>ok.
         businessFailure pf step caption result)) s"
  proof (cases response)
    case (Body result)
    have f2: "fetchJson url body (Body result) s = (Inr result, ?s1)"
      using fetch Body by simp
    from assms Body show ?thesis
      by (cases "getProp pf (Some result) (ascii ''success'')")
         (simp_all add: protocolTry_def js_bind_def f2 js_pure_def successFlag_def)
  next
    case (FetchRejected e)
    have "fetchJson url body (FetchRejected e) s = (Inl e, ?s1)"
      using fetch FetchRejected by simp
    with FetchRejected show ?thesis by (simp add: protocolTry_def js_bind_def)
  next
    case (BodyRejected e)
    have "fetchJson url body (BodyRejected e) s = (Inl e, ?s1)"
      using fetch BodyRejected by simp
    with BodyRejected show ?thesis by (simp add: protocolTry_def js_bind_def)
  qed
qed

lemma steady_protocolTry_failure:
  assumes "\<not> successFlag pf response"
  shows "steady (\<lambda>t. protocolTry pf url (bodyOf t) response step caption pre tail t)"
proof -
  have "steady (js_bind (fetchJson url b response) (\<lambda>result.
         js_bind (js_pure (getProp pf (Some result) (ascii ''success''))) (\<lambda>ok.
         businessFailure pf step caption result)))" for b
    by (intro steady_bind) simp_all
  then show ?thesis
    unfolding steady_def protocolTry_failure[OF assms] by blast
qed

lemma pipeline_alert: "pipeline (snd (alert a s)) = pipeline s"
  by (simp add: alert_def js_modify_def pipeline_def)

lemma steady_upload_try:
  "\<not> successFlag pf response \<Longrightarrow> steady (uploadPDF_try pf file response)"
  using steady_protocolTry_failure[of pf response _ "\<lambda>t. FormData file"]
  by (simp add: uploadPDF_try_protocol)

lemma steady_extract_try:
  "\<not> successFlag pf response \<Longrightarrow> steady (extractContent_try pf response)"
  using steady_protocolTry_failure[of pf response]
  by (simp add: extractContent_try_protocol[abs_def])

lemma steady_generate_try:
  "\<not> successFlag pf response \<Longrightarrow> steady (generateFactor_try pf response)"
  using steady_protocolTry_failure[of pf response]
  by (simp add: generateFactor_try_protocol[abs_def])

lemma steady_backtest_try:
  "\<not> successFlag pf response \<Longrightarrow>
   steady (runBacktest_try pf dataset startDate endDate response)"
  using steady_protocolTry_failure[of pf response]
  by (simp add: runBacktest_try_protocol[abs_def])

lemma steady_uploadPDF:
  assumes "\<not> successFlag pf response"
  shows "steady (uploadPDF pf response)"
  unfolding uploadPDF_def
  by (intro steady_bind steady_basic)
     (simp add: steady_then steady_tryCatchFinally steady_upload_try[OF assms] split: list.splits)

lemma steady_extractContent:
  assumes "\<not> successFlag pf response"
  shows "steady (extractContent pf response)"
proof -
  have "steady (js_then (updateStatus pf (ascii ''extract'') processing)
       (js_then (showLoading pf lit_content_extraction)
       (tryCatchFinally
          (extractContent_try pf response)
          (\<lambda>e. reportFailure pf (ascii ''extract'') lit_extraction_failed (message e))
          (hideLoading pf lit_content_extraction))))"
    by (simp add: steady_then steady_tryCatchFinally steady_extract_try[OF assms])
  then show ?thesis
    unfolding steady_def extractContent_def by (simp add: pipeline_alert)
qed

lemma steady_generateFactor:
  assumes "\<not> successFlag pf response"
  shows "steady (generateFactor pf response)"
proof -
  have "steady (js_then (updateStatus pf (ascii ''factor'') processing)
       (js_then (showLoading pf lit_factor_generation)
       (tryCatchFinally
          (generateFactor_try pf response)
          (\<lambda>e. reportFailure pf (ascii ''factor'') lit_generation_failed (message e))
          (hideLoading pf lit_factor_generation))))"
    by (simp add: steady_then steady_tryCatchFinally steady_generate_try[OF assms])
  then show ?thesis
    unfolding steady_def generateFactor_def by (simp add: pipeline_alert)
qed

lemma steady_runBacktest:
  assumes "\<not> successFlag pf response"
  shows "steady (runBacktest pf response)"
proof -
  have "steady
     (js_bind (readElement pf (ascii ''datasetSelect'') (ascii ''value'') elementValue) (\<lambda>dataset.
      js_bind (readElement pf (ascii ''startDate'') (ascii ''value'') elementValue) (\<lambda>startDate.
      js_bind (readElement pf (ascii ''endDate'') (ascii ''value'') elementValue) (\<lambda>endDate.
      if dataset = [] then alert lit_choose_dataset
      else
        js_then (updateStatus pf (ascii ''backtest'') processing)
       (js_then (showLoading pf lit_backtest_analysis)
       (tryCatchFinally
          (runBacktest_try pf dataset startDate endDate response)
          (\<lambda>e. reportFailure pf (ascii ''backtest'') lit_backtest_failed (message e))
          (hideLoading pf lit_backtest_analysis)))))))"
    by (intro steady_bind steady_basic)
       (simp add: steady_then steady_tryCatchFinally steady_backtest_try[OF assms])
  then show ?thesis
    unfolding steady_def runBacktest_def by (simp add: pipeline_alert)
qed

text \<open>
  Claim C10. When the request of a workflow function is rejected, its body is not JSON,
  or the success flag of the response is not truthy, the call leaves
  \<^verbatim>\<open>currentMarkdownContent\<close>, \<^verbatim>\<open>currentExtractedInfo\<close> and \<^verbatim>\<open>currentFactorCode\<close> as they were: this holds for \<^verbatim>\<open>uploadPDF\<close>, \<^verbatim>\<open>extractContent\<close>, \<^verbatim>\<open>generateFactor\<close> and \<^verbatim>\<open>runBacktest\<close>, from every page.
\<close>

theorem failure_keeps_pipeline:
  "\<not> successFlag pf response \<Longrightarrow>
     pipeline (snd (uploadPDF pf response s)) = pipeline s \<and>
     pipeline (snd (extractContent pf response s)) = pipeline s \<and>
     pipeline (snd (generateFactor pf response s)) = pipeline s \<and>
     pipeline (snd (runBacktest pf response s)) = pipeline s"
  using steady_uploadPDF steady_extractContent steady_generateFactor steady_runBacktest
  unfolding steady_def by blast

theorem failure_keeps_pipeline_witness:
  "pipeline (snd (uploadPDF samplePlatform quotaExceeded busyPage)) = pipeline busyPage \<and>
   pipeline (snd (extractContent samplePlatform quotaExceeded busyPage)) = pipeline busyPage \<and>
   pipeline (snd (generateFactor samplePlatform quotaExceeded busyPage)) = pipeline busyPage \<and>
   pipeline (snd (runBacktest samplePlatform quotaExceeded busyPage)) = pipeline busyPage"
  using failure_keeps_pipeline[OF quota_fails, of busyPage] by simp

subsection \<open>Status transitions\<close>









subsection \<open>The loading affordance\<close>


text \<open>
  The processing badge is set and the loading affordance is shown, both without an
  exception, exactly on the pages that have the badge of the step and whose loading
  elements all have their card header.
\<close>

lemma shown_iff:
  "(\<exists>s1 s2. updateStatus pf step processing s = (Inr (), s1) \<and>
            showLoading pf ctx s1 = (Inr (), s2)) \<longleftrightarrow>
   badgePresent step s \<and> loadingReady s"
proof (cases "elements s (step @ ascii ''Status'')")
  case None
  then show ?thesis
    by (simp add: updateStatus_absent badgePresent_def)
next
  case (Some el)
  then have present: "elements s (step @ ascii ''Status'') \<noteq> None" by simp
  from updateStatus_extends[OF present, of pf processing] obtain s1 where
    up: "updateStatus pf step processing s = (Inr (), s1)"
    and e1: "extends [StatusSet step processing] s s1" by blast
  have r: "loadingReady s1 = loadingReady s" by (rule loadingReady_extends[OF e1])
  show ?thesis
  proof (cases "loadingReady s")
    case True
    with r have "loadingReady s1" by simp
    from showLoading_ready[OF this, of pf ctx] up True present show ?thesis
      by (auto simp: badgePresent_def)
  next
    case False
    with r have "\<not> loadingReady s1" by simp
    from showLoading_not_ready[OF this, of pf ctx] up False show ?thesis
      by auto
  qed
qed



text \<open>
  Claim C4. \<^verbatim>\<open>runBacktest\<close> with no generated code changes nothing but the list of alerts,
  to which it adds the message asking to generate the code first: no request is logged
  and no badge is touched. With code and the three inputs on the page but no dataset
  chosen it adds the message asking to choose a dataset instead, and again changes
  nothing else. The two messages differ.
\<close>

theorem runBacktest_preconditions:
  "(\<not> isTruthy pf (currentFactorCode s) \<longrightarrow>
      runBacktest pf response s = (Inr (), s\<lparr>alerts := alerts s @ [lit_generate_first]\<rparr>)) \<and>
   (isTruthy pf (currentFactorCode s) \<and>
    elements s (ascii ''datasetSelect'') = Some select \<and> elementValue select = [] \<and>
    elements s (ascii ''startDate'') = Some a \<and> elements s (ascii ''endDate'') = Some b \<longrightarrow>
      runBacktest pf response s = (Inr (), s\<lparr>alerts := alerts s @ [lit_choose_dataset]\<rparr>)) \<and>
   lit_generate_first \<noteq> lit_choose_dataset"
  by (simp add: runBacktest_def alert_def js_modify_def js_bind_def readElement_def
      lit_generate_first_def lit_choose_dataset_def)

theorem runBacktest_preconditions_witness:
  "runBacktest samplePlatform quotaExceeded samplePage =
     (Inr (), samplePage\<lparr>alerts := alerts samplePage @ [lit_generate_first]\<rparr>) \<and>
   runBacktest samplePlatform quotaExceeded codedPage =
     (Inr (), codedPage\<lparr>alerts := alerts codedPage @ [lit_choose_dataset]\<rparr>)"
proof -
  have 1: "\<not> isTruthy samplePlatform (currentFactorCode samplePage)"
    by (simp add: samplePage_def initialPage_def)
  have 2: "isTruthy samplePlatform (currentFactorCode codedPage) \<and>
    elements codedPage (ascii ''datasetSelect'') = Some blankElement \<and> elementValue blankElement = [] \<and>
    elements codedPage (ascii ''startDate'') = Some blankElement \<and>
    elements codedPage (ascii ''endDate'') = Some blankElement"
    by (simp add: codedPage_def samplePage_def initialPage_def sampleDocument_def ascii_def
        blankElement_def)
  from runBacktest_preconditions[of samplePlatform samplePage quotaExceeded] 1
  have a: "runBacktest samplePlatform quotaExceeded samplePage =
     (Inr (), samplePage\<lparr>alerts := alerts samplePage @ [lit_generate_first]\<rparr>)" by blast
  from runBacktest_preconditions[of samplePlatform codedPage quotaExceeded blankElement
      blankElement blankElement] 2
  have b: "runBacktest samplePlatform quotaExceeded codedPage =
     (Inr (), codedPage\<lparr>alerts := alerts codedPage @ [lit_choose_dataset]\<rparr>)" by blast
  from a b show ?thesis by simp
qed

subsection \<open>Status classes\<close>

lemma fold_classList_remove:
  "fold classList_remove cs tokens = filter (\<lambda>t. t \<notin> set cs) tokens"
  by (induction cs arbitrary: tokens) (auto simp: classList_remove_def removeAll_filter_not_eq
      intro: filter_cong)

lemma statusClasses_listed: "statusClasses st \<in> set statusClassValues"
  by (cases st) (simp_all add: statusClassValues_def)

lemma active_after_update:
  "filter (\<lambda>cls. cls \<in> set statusClassValues)
     (classList_add (statusClasses st) (fold classList_remove statusClassValues tokens)) =
   [statusClasses st]"
  using statusClasses_listed[of st]
  by (simp add: fold_classList_remove classList_add_def)

lemma update_idempotent:
  "classList_add (statusClasses st)
     (fold classList_remove statusClassValues
        (classList_add (statusClasses st) (fold classList_remove statusClassValues tokens))) =
   classList_add (statusClasses st) (fold classList_remove statusClassValues tokens)"
  using statusClasses_listed[of st]
  by (simp add: fold_classList_remove classList_add_def)

lemma others_kept:
  "filter (\<lambda>cls. cls \<notin> set statusClassValues)
     (classList_add (statusClasses st) (fold classList_remove statusClassValues tokens)) =
   filter (\<lambda>cls. cls \<notin> set statusClassValues) tokens"
  using statusClasses_listed[of st]
  by (simp add: fold_classList_remove classList_add_def)

text \<open>
  Claim C9. On a page that has the badge of the step, \<^verbatim>\<open>updateStatus\<close> returns normally;
  afterwards the status classes of the badge are exactly the one class of the given
  status, every other class is kept, the label is the text of the status, and a second
  call with the same step and status leaves the document as the first one left it.
\<close>

theorem updateStatus_exclusive:
  "elements s (step @ ascii ''Status'') = Some badge \<longrightarrow>
     (\<exists>s' badge'.
        updateStatus pf step st s = (Inr (), s') \<and>
        elements s' (step @ ascii ''Status'') = Some badge' \<and>
        activeStatusClasses badge' = [statusClasses st] \<and>
        filter (\<lambda>cls. cls \<notin> set statusClassValues) (classList badge') =
          filter (\<lambda>cls. cls \<notin> set statusClassValues) (classList badge) \<and>
        content badge' = TextContent (statusTexts st) \<and>
        (\<exists>s''. updateStatus pf step st s' = (Inr (), s'') \<and> elements s'' = elements s'))"
proof
  assume el: "elements s (step @ ascii ''Status'') = Some badge"
  let ?badge' = "badge\<lparr>classList :=
                 classList_add (statusClasses st)
                   (fold classList_remove statusClassValues (classList badge)),
               content := TextContent (statusTexts st)\<rparr>"
  let ?s' = "s\<lparr>elements := (elements s)(step @ ascii ''Status'' \<mapsto> ?badge'),
        trace := trace s @ [StatusSet step st]\<rparr>"
  have 1: "updateStatus pf step st s = (Inr (), ?s')" by (rule updateStatus_present[OF el])
  have 2: "elements ?s' (step @ ascii ''Status'') = Some ?badge'" by simp
  have 3: "elements (snd (updateStatus pf step st ?s')) = elements ?s'"
    unfolding updateStatus_present[OF 2] by (simp add: update_idempotent)
  have 4: "fst (updateStatus pf step st ?s') = Inr ()"
    unfolding updateStatus_present[OF 2] by simp
  show "\<exists>s' badge'.
        updateStatus pf step st s = (Inr (), s') \<and>
        elements s' (step @ ascii ''Status'') = Some badge' \<and>
        activeStatusClasses badge' = [statusClasses st] \<and>
        filter (\<lambda>cls. cls \<notin> set statusClassValues) (classList badge') =
          filter (\<lambda>cls. cls \<notin> set statusClassValues) (classList badge) \<and>
        content badge' = TextContent (statusTexts st) \<and>
        (\<exists>s''. updateStatus pf step st s' = (Inr (), s'') \<and> elements s'' = elements s')"
    apply (rule exI[of _ ?s'])
    apply (rule exI[of _ ?badge'])
    apply (intro conjI)
         apply (rule 1)
        apply (rule 2)
       apply (simp add: activeStatusClasses_def active_after_update)
      apply (simp add: others_kept)
     apply simp
    apply (rule exI[of _ "snd (updateStatus pf step st ?s')"])
    using 3 4 apply (metis prod.collapse)
    done
qed

theorem updateStatus_exclusive_witness:
  "\<exists>s' badge'.
        updateStatus samplePlatform (ascii ''pdf'') processing samplePage = (Inr (), s') \<and>
        elements s' (ascii ''pdf'' @ ascii ''Status'') = Some badge' \<and>
        activeStatusClasses badge' = [ascii ''bg-warning''] \<and>
        content badge' = TextContent lit_processing \<and>
        (\<exists>s''. updateStatus samplePlatform (ascii ''pdf'') processing s' = (Inr (), s'') \<and>
           elements s'' = elements s')"
proof -
  have "elements samplePage (ascii ''pdf'' @ ascii ''Status'') =
      Some (blankElement\<lparr>classList := [ascii ''badge'', ascii ''bg-secondary'']\<rparr>)"
    by (simp add: samplePage_def initialPage_def sampleDocument_def ascii_def)
  with updateStatus_exclusive[of samplePage "ascii ''pdf''" _ samplePlatform processing]
  show ?thesis by fastforce
qed

subsection \<open>Chart instances\<close>

lemma destroy_previous:
  assumes "chartInvariant s"
  shows "(case backtestChart s of None \<Rightarrow> js_return () s | Some c \<Rightarrow> Chart_destroy c s) =
         (Inr (), s\<lparr>charts := [], chartLog := chartLog s @ destroyedFirst s\<rparr>)"
proof (cases "backtestChart s")
  case None
  with assms have "charts s = []"
    by (auto simp: chartInvariant_def split: list.splits)
  with None show ?thesis by (simp add: js_return_def destroyedFirst_def)
next
  case (Some c)
  with assms have "filter (\<lambda>entry. fst entry \<noteq> c) (charts s) = []"
    by (auto simp: chartInvariant_def split: list.splits)
  with Some show ?thesis by (simp add: Chart_destroy_def js_modify_def destroyedFirst_def)
qed

lemma drawReturnsChart_cases:
  assumes inv: "chartInvariant s"
  shows "drawReturnsChart pf data s =
     (case elements s (ascii ''returnsChart'') of
        None \<Rightarrow> (Inl (TypeError (nullishReadMessage pf (ascii ''getContext''))), s)
      | Some canvas \<Rightarrow>
          (case chartConfig pf data of
             Inl e \<Rightarrow> (Inl e, s\<lparr>charts := [], chartLog := chartLog s @ destroyedFirst s\<rparr>)
           | Inr config \<Rightarrow>
               (Inr (),
                s\<lparr>charts := [(chartsCreated s, config)],
                  chartsCreated := Suc (chartsCreated s),
                  chartLog := chartLog s @ destroyedFirst s @ [ChartCreated (chartsCreated s)],
                  backtestChart := Some (chartsCreated s)\<rparr>)))"
  by (simp add: drawReturnsChart_def js_bind_def js_then_def readElement_def destroy_previous[OF inv]
      js_pure_def Chart_new_def js_modify_def split: option.splits sum.splits)

lemma drawReturnsChart_invariant:
  "chartInvariant s \<Longrightarrow> chartInvariant (snd (drawReturnsChart pf data s))"
  by (simp add: drawReturnsChart_cases split: option.splits sum.splits)
     (simp add: chartInvariant_def)

lemma renderAll_invariant:
  "chartInvariant s \<Longrightarrow> chartInvariant (renderAll pf inputs s)"
  unfolding renderAll_def
  by (induction inputs arbitrary: s) (simp_all add: drawReturnsChart_invariant)

lemma chartInvariant_at_most_one: "chartInvariant s \<Longrightarrow> length (charts s) \<le> 1"
  by (auto simp: chartInvariant_def split: list.splits)

lemma chartConfig_defined:
  "v \<noteq> JNull \<Longrightarrow> \<exists>cfg. chartConfig pf (Some v) = Inr cfg"
  by (cases v) (simp_all add: chartConfig_def)

text \<open>
  The page as the script finds it when loaded satisfies the invariant on charts.
\<close>

lemma chartInvariant_initialPage: "chartInvariant (initialPage document loading)"
  by (simp add: chartInvariant_def initialPage_def)

text \<open>
  Claim C6, as amended. From a page on which at most the chart of \<^verbatim>\<open>backtestChart\<close> is
  attached, after any number of calls of \<^verbatim>\<open>drawReturnsChart\<close> with any arguments at most one
  chart is attached; a call that returns normally leaves exactly one, the newly created
  one, having first destroyed the previous one when there was one; and a call returns
  normally whenever the canvas is on the page and its argument is neither \<^verbatim>\<open>null\<close> nor
  \<^verbatim>\<open>undefined\<close>.
\<close>

theorem chart_instances:
  fixes pf :: "'n platform" and s :: "'n page"
  shows "chartInvariant s \<longrightarrow>
     chartInvariant (renderAll pf inputs s) \<and>
     length (charts (renderAll pf inputs s)) \<le> 1 \<and>
     (\<forall>data r s'. drawReturnsChart pf data (renderAll pf inputs s) = (r, s') \<and> r = Inr () \<longrightarrow>
        (\<exists>cfg. charts s' = [(chartsCreated (renderAll pf inputs s), cfg)]) \<and>
        backtestChart s' = Some (chartsCreated (renderAll pf inputs s)) \<and>
        chartLog s' =
          chartLog (renderAll pf inputs s) @ destroyedFirst (renderAll pf inputs s) @
          [ChartCreated (chartsCreated (renderAll pf inputs s))]) \<and>
     (\<forall>v. v \<noteq> JNull \<and> elements (renderAll pf inputs s) (ascii ''returnsChart'') \<noteq> None \<longrightarrow>
        fst (drawReturnsChart pf (Some v) (renderAll pf inputs s)) = Inr ())"
proof (intro impI conjI allI)
  assume inv: "chartInvariant s"
  let ?t = "renderAll pf inputs s"
  show invt: "chartInvariant ?t" by (rule renderAll_invariant[OF inv])
  show "length (charts ?t) \<le> 1" by (rule chartInvariant_at_most_one[OF invt])
  fix data r s'
  assume run: "drawReturnsChart pf data ?t = (r, s') \<and> r = Inr ()"
  then show "\<exists>cfg. charts s' = [(chartsCreated ?t, cfg)]"
    by (auto simp: drawReturnsChart_cases[OF invt] split: option.splits sum.splits)
  from run show "backtestChart s' = Some (chartsCreated ?t)"
    by (auto simp: drawReturnsChart_cases[OF invt] split: option.splits sum.splits)
  from run show "chartLog s' = chartLog ?t @ destroyedFirst ?t @ [ChartCreated (chartsCreated ?t)]"
    by (auto simp: drawReturnsChart_cases[OF invt] split: option.splits sum.splits)
next
  fix v :: "'n json"
  assume inv: "chartInvariant s"
  let ?t = "renderAll pf inputs s"
  have invt: "chartInvariant ?t" by (rule renderAll_invariant[OF inv])
  assume a: "v \<noteq> JNull \<and> elements ?t (ascii ''returnsChart'') \<noteq> None"
  then obtain cfg where "chartConfig pf (Some v) = Inr cfg" using chartConfig_defined by blast
  with a show "fst (drawReturnsChart pf (Some v) ?t) = Inr ()"
    by (auto simp: drawReturnsChart_cases[OF invt])
qed

theorem chart_instances_witness:
  "chartInvariant samplePage \<and>
   length (charts (renderAll samplePlatform [Some (JObj []), None, Some (JArr [])] samplePage)) \<le> 1 \<and>
   fst (drawReturnsChart samplePlatform (Some (JObj [])) (renderAll samplePlatform [] samplePage)) = Inr ()"
proof -
  have inv: "chartInvariant samplePage"
    by (simp add: chartInvariant_def samplePage_def initialPage_def)
  have canvas: "JObj [] \<noteq> (JNull :: int json) \<and>
      elements (renderAll samplePlatform [] samplePage) (ascii ''returnsChart'') \<noteq> None"
    by (simp add: renderAll_def samplePage_def initialPage_def sampleDocument_def ascii_def)
  from chart_instances[of samplePage samplePlatform "[Some (JObj []), None, Some (JArr [])]"] inv
  have 1: "length (charts (renderAll samplePlatform [Some (JObj []), None, Some (JArr [])] samplePage)) \<le> 1"
    by blast
  from chart_instances[of samplePage samplePlatform "[]"] inv canvas
  have 2: "fst (drawReturnsChart samplePlatform (Some (JObj [])) (renderAll samplePlatform [] samplePage)) = Inr ()"
    by blast
  from inv 1 2 show ?thesis by simp
qed

text \<open>
  A call without data destroys the attached chart and throws before a new one is
  created: no chart is attached afterwards.
\<close>

theorem failed_render_counterexample:
  "length (charts (renderAll samplePlatform [Some (JObj [])] samplePage)) = 1 \<and>
   length (charts (renderAll samplePlatform [Some (JObj []), None] samplePage)) = 0"
  by (simp add: renderAll_def drawReturnsChart_def js_bind_def js_then_def readElement_def
      js_pure_def js_return_def js_modify_def Chart_new_def Chart_destroy_def chartConfig_def
      samplePage_def initialPage_def sampleDocument_def ascii_def)

subsection \<open>Chart series\<close>




end
